theory Spec2Isabelle
  imports Complex_Main
begin

section \<open>Python values shared by the modules\<close>

text \<open>
  The exceptions that the modelled code raises itself or meets in numpy. A function that
  can raise returns \<open>py_error + 'a\<close>, with \<open>Inl\<close> for the raised exception.
  numpy's float64 values are modelled as reals: the code copies them, compares them and
  never does arithmetic on them (not-a-number values are outside the model).
\<close>

datatype py_error = ValueError | IndexError | KeyError | TypeError | AttributeError

text \<open>Python's \<open>str(n)\<close> for a non-negative integer, as the f-strings use it.\<close>

definition digit_char :: "nat \<Rightarrow> char" where
  "digit_char d = ''0123456789'' ! d"

function str_nat :: "nat \<Rightarrow> string" where
  "str_nat n = (if n < 10 then [digit_char n] else str_nat (n div 10) @ [digit_char (n mod 10)])"
  by pat_completeness auto
termination
  by (relation "measure (\<lambda>n. n)") auto

declare str_nat.simps [simp del]

text \<open>
  Reading a string of decimal digits as a number, to say what \<open>str_nat\<close> has to satisfy:
  the value of a digit is its position in \<open>0123456789\<close>.
\<close>

definition digit_val :: "char \<Rightarrow> nat" where
  "digit_val c = length (takeWhile (\<lambda>x. x \<noteq> c) ''0123456789'')"

definition val_digits :: "string \<Rightarrow> nat" where
  "val_digits s = foldl (\<lambda>a c. 10 * a + digit_val c) 0 s"

text \<open>Python's \<open>int(x)\<close> of a float: truncation towards zero.\<close>

definition py_int :: "real \<Rightarrow> int" where
  "py_int x = (if 0 \<le> x then \<lfloor>x\<rfloor> else \<lceil>x\<rceil>)"

section \<open>AB3DMOT_libs/csv_export.py: CSVExporter\<close>

text \<open>
  A value handed to \<open>csv.writer.writerow\<close>: an integer, a string or a float. A row is the
  list of values of one \<open>writerow\<close> call, before the csv module turns it into text.
\<close>

datatype cell = CInt int | CStr string | CNum real

type_synonym csv_row = "cell list"

text \<open>
  A file handle as \<open>open\<close> returns it: the name of the file inside \<open>save_dir\<close>, and the
  mode, the \<open>newline\<close> argument and the encoding it was opened with.
\<close>

record text_io =
  io_name :: string
  io_mode :: string
  io_newline :: string
  io_encoding :: string

text \<open>
  The exporter with the directory it writes to. \<open>csv_files\<close> maps a hypothesis index to its
  open file handle and \<open>csv_writers\<close> to the name of the file its writer appends to;
  \<open>files\<close> is the content of \<open>save_dir\<close>, a file being the list of rows written to it.
  Opening a file is taken to succeed.
\<close>

record CSVExporter =
  save_dir :: string
  num_hypo :: nat
  csv_files :: "int \<rightharpoonup> text_io"
  csv_writers :: "int \<rightharpoonup> string"
  files :: "string \<rightharpoonup> csv_row list"

definition CSVExporter_init :: "string \<Rightarrow> nat \<Rightarrow> (string \<rightharpoonup> csv_row list) \<Rightarrow> CSVExporter" where
  "CSVExporter_init dir n fs =
     \<lparr>save_dir = dir, num_hypo = n, csv_files = Map.empty, csv_writers = Map.empty, files = fs\<rparr>"

definition get_csv_header :: "string list" where
  "get_csv_header =
     [''frame'', ''track_id'', ''object_type'', ''truncated'', ''occluded'', ''alpha'',
      ''bbox_left'', ''bbox_top'', ''bbox_right'', ''bbox_bottom'',
      ''height_3d'', ''width_3d'', ''length_3d'', ''x_3d'', ''y_3d'', ''z_3d'',
      ''rotation_y'', ''confidence_score'']"

text \<open>
  The text \<open>csv.writer\<close> produces for a row of strings that hold no comma, quote or line
  break (no header name does): the fields joined by commas. The line end is left out.
\<close>

fun csv_text :: "string list \<Rightarrow> string" where
  "csv_text [] = []"
| "csv_text [f] = f"
| "csv_text (f # g # fs) = f @ '','' @ csv_text (g # fs)"

definition csv_filename :: "nat \<Rightarrow> string \<Rightarrow> string" where
  "csv_filename hypo seq_name = ''tracking_results_H'' @ str_nat hypo @ ''_'' @ seq_name @ ''.csv''"

definition close_files :: "CSVExporter \<Rightarrow> CSVExporter" where
  "close_files e = e\<lparr>csv_files := Map.empty, csv_writers := Map.empty\<rparr>"

text \<open>
  The body of the loop of \<open>init_sequence_files\<close>: the file is opened with mode \<open>'w'\<close>, which
  truncates it, \<open>newline=''\<close> and encoding \<open>'utf-8'\<close>; the header row is written; handle
  and writer are stored under the hypothesis index.
\<close>

definition open_hypo :: "string \<Rightarrow> CSVExporter \<Rightarrow> nat \<Rightarrow> CSVExporter" where
  "open_hypo seq_name e hypo =
     e\<lparr>files := (files e)(csv_filename hypo seq_name \<mapsto> [map CStr get_csv_header]),
       csv_files := (csv_files e)(int hypo \<mapsto>
          \<lparr>io_name = csv_filename hypo seq_name, io_mode = ''w'', io_newline = '''', io_encoding = ''utf-8''\<rparr>),
       csv_writers := (csv_writers e)(int hypo \<mapsto> csv_filename hypo seq_name)\<rparr>"

definition init_sequence_files :: "CSVExporter \<Rightarrow> string \<Rightarrow> CSVExporter" where
  "init_sequence_files e seq_name = foldl (open_hypo seq_name) (close_files e) [0..<num_hypo e]"

text \<open>
  \<open>det_id2str[result_data[9]]\<close>: the keys of the table are Python ints, the index is a
  float, and a float finds the int key it equals.
\<close>

definition lookup_type :: "(int \<times> string) list \<Rightarrow> real \<Rightarrow> string option" where
  "lookup_type det_id2str x = map_of (map (\<lambda>(k, v). (real_of_int k, v)) det_id2str) x"

definition csv_row_of :: "real list \<Rightarrow> string \<Rightarrow> int \<Rightarrow> csv_row" where
  "csv_row_of result_data type_tmp frame =
     (let bbox3d_tmp = take 7 result_data;
          id_tmp = result_data ! 7;
          ori_tmp = result_data ! 8;
          bbox2d_tmp = take 4 (drop 10 result_data);
          conf_tmp = result_data ! 14
      in [CInt frame, CInt (py_int id_tmp), CStr type_tmp, CInt 0, CInt 0, CNum ori_tmp,
          CNum (bbox2d_tmp ! 0), CNum (bbox2d_tmp ! 1), CNum (bbox2d_tmp ! 2), CNum (bbox2d_tmp ! 3),
          CNum (bbox3d_tmp ! 0), CNum (bbox3d_tmp ! 1), CNum (bbox3d_tmp ! 2), CNum (bbox3d_tmp ! 3),
          CNum (bbox3d_tmp ! 4), CNum (bbox3d_tmp ! 5), CNum (bbox3d_tmp ! 6), CNum conf_tmp])"

definition append_row :: "(string \<rightharpoonup> csv_row list) \<Rightarrow> string \<Rightarrow> csv_row \<Rightarrow> (string \<rightharpoonup> csv_row list)" where
  "append_row fs name r = fs(name \<mapsto> (case fs name of None \<Rightarrow> [r] | Some rs \<Rightarrow> rs @ [r]))"

text \<open>
  \<open>export_result\<close>. The result is a one-dimensional array; an index past its end raises
  IndexError and a type id that is no key of the table raises KeyError, both before the
  threshold is looked at (\<open>csv_row_of\<close> is reached only with all fifteen fields present).
\<close>

definition export_result ::
  "CSVExporter \<Rightarrow> real list \<Rightarrow> int \<Rightarrow> (int \<times> string) list \<Rightarrow> int \<Rightarrow> real \<Rightarrow> py_error + CSVExporter" where
  "export_result e result_data hypo det_id2str frame score_threshold =
     (case csv_writers e hypo of
        None \<Rightarrow> Inr e
      | Some name \<Rightarrow>
          if length result_data < 10 then Inl IndexError
          else (case lookup_type det_id2str (result_data ! 9) of
                  None \<Rightarrow> Inl KeyError
                | Some type_tmp \<Rightarrow>
                    if length result_data < 15 then Inl IndexError
                    else if result_data ! 14 \<ge> score_threshold
                      then Inr (e\<lparr>files := append_row (files e) name (csv_row_of result_data type_tmp frame)\<rparr>)
                      else Inr e))"

text \<open>One call of \<open>export_result\<close>: result, hypothesis, table, frame, threshold.\<close>

type_synonym export_call = "real list \<times> int \<times> (int \<times> string) list \<times> int \<times> real"

text \<open>A caller's loop over \<open>export_result\<close>; the first exception ends it.\<close>

fun export_results :: "CSVExporter \<Rightarrow> export_call list \<Rightarrow> py_error + CSVExporter" where
  "export_results e [] = Inr e"
| "export_results e ((r, hypo, tbl, frame, thr) # cs) =
     (case export_result e r hypo tbl frame thr of
        Inl err \<Rightarrow> Inl err
      | Inr e' \<Rightarrow> export_results e' cs)"

text \<open>
  The rows a run of \<open>export_result\<close> calls is to leave in the file of hypothesis \<open>k\<close>, in the
  words of the specification: one row per result exported for that hypothesis whose
  confidence reaches the threshold, in the order of the calls.
\<close>

fun spec_exported_rows :: "int \<Rightarrow> export_call list \<Rightarrow> csv_row list" where
  "spec_exported_rows k [] = []"
| "spec_exported_rows k ((r, hypo, tbl, frame, thr) # cs) =
     (if hypo = k \<and> thr \<le> r ! 14
      then (case lookup_type tbl (r ! 9) of Some ty \<Rightarrow> [csv_row_of r ty frame] | None \<Rightarrow> [])
      else []) @ spec_exported_rows k cs"

text \<open>
  Two predicates for the proofs: a data row of the export format, and a file that starts
  with the header row and goes on with data rows.
\<close>

definition good_row :: "csv_row \<Rightarrow> bool" where
  "good_row r = (length r = 18 \<and> r ! 3 = CInt 0 \<and> r ! 4 = CInt 0)"

definition good_file :: "(string \<rightharpoonup> csv_row list) \<Rightarrow> string \<Rightarrow> bool" where
  "good_file fs name = (\<exists>rows. fs name = Some (map CStr get_csv_header # rows) \<and> list_all good_row rows)"

text \<open>The category tables of \<open>RealtimeTracker.__init__\<close>, in insertion order.\<close>

definition det_id2str_KITTI :: "(int \<times> string) list" where
  "det_id2str_KITTI = [(1, ''Pedestrian''), (2, ''Car''), (3, ''Cyclist'')]"

definition det_id2str_nuScenes :: "(int \<times> string) list" where
  "det_id2str_nuScenes =
     [(1, ''Pedestrian''), (2, ''Car''), (3, ''Bicycle''), (4, ''Motorcycle''), (5, ''Bus''),
      (6, ''Trailer''), (7, ''Truck''), (8, ''Construction_vehicle''), (9, ''Barrier''),
      (10, ''Traffic_cone'')]"

section \<open>numpy arrays\<close>

text \<open>
  An array of rank 0, 1 or 2 (no modelled path builds a higher rank). A rank-2 array
  carries its column count, which numpy keeps when there are no rows: \<open>np.empty((0, 7))\<close>
  is \<open>A2 7 []\<close>.
\<close>

datatype ndarray = A0 real | A1 "real list" | A2 nat "real list list"


fun ndim :: "ndarray \<Rightarrow> nat" where
  "ndim (A0 _) = 0"
| "ndim (A1 _) = 1"
| "ndim (A2 _ _) = 2"

text \<open>\<open>a.shape[0]\<close> and \<open>a.shape[1]\<close>: IndexError when the shape tuple is too short.\<close>

fun shape0 :: "ndarray \<Rightarrow> py_error + nat" where
  "shape0 (A0 _) = Inl IndexError"
| "shape0 (A1 xs) = Inr (length xs)"
| "shape0 (A2 _ rs) = Inr (length rs)"

fun shape1 :: "ndarray \<Rightarrow> py_error + nat" where
  "shape1 (A2 c _) = Inr c"
| "shape1 _ = Inl IndexError"

fun ncols :: "ndarray \<Rightarrow> nat" where
  "ncols (A2 c _) = c"
| "ncols _ = 0"

fun rows_of :: "ndarray \<Rightarrow> real list list" where
  "rows_of (A2 _ rs) = rs"
| "rows_of _ = []"

text \<open>\<open>a[:, lo:hi]\<close> on a rank-2 array.\<close>

definition cols :: "nat \<Rightarrow> nat \<Rightarrow> ndarray \<Rightarrow> ndarray" where
  "cols lo hi a = A2 (min hi (ncols a) - lo) (map (\<lambda>r. take (hi - lo) (drop lo r)) (rows_of a))"

text \<open>\<open>np.concatenate([...], axis=1)\<close> of rank-2 arrays with the same number of rows.\<close>

definition hcat2 :: "ndarray \<Rightarrow> ndarray \<Rightarrow> ndarray" where
  "hcat2 a b = A2 (ncols a + ncols b) (map2 (@) (rows_of a) (rows_of b))"

fun hcat :: "ndarray list \<Rightarrow> ndarray" where
  "hcat [] = A2 0 []"
| "hcat [a] = a"
| "hcat (a # b # bs) = hcat2 a (hcat (b # bs))"

text \<open>\<open>np.full((N, k), v)\<close>, and \<open>xs.reshape(k, c)\<close> of a flat buffer in row-major order.\<close>

definition np_full :: "nat \<Rightarrow> nat \<Rightarrow> real \<Rightarrow> ndarray" where
  "np_full N k v = A2 k (replicate N (replicate k v))"

definition reshape_rows :: "nat \<Rightarrow> nat \<Rightarrow> real list \<Rightarrow> ndarray" where
  "reshape_rows k c xs = A2 c (map (\<lambda>i. take c (drop (i * c) xs)) [0..<k])"

text \<open>\<open>a.reshape(1, -1)\<close> of a rank-1 array, as the dictionary branch applies it.\<close>

fun ensure_2d :: "ndarray \<Rightarrow> ndarray" where
  "ensure_2d (A1 xs) = A2 (length xs) [xs]"
| "ensure_2d a = a"

section \<open>realtime_tracker.py: RealtimeTracker\<close>

text \<open>
  The tracking core \<open>AB3DMOT\<close> is imported from outside the modelled files. Of its state
  the wrapper reads and writes three attributes: the list of live tracks (kept as their
  ids), the core's own frame counter and the id counter. Its constructor and its \<open>track\<close>
  method are parameters of the functions below: \<open>new_core category ID_init\<close>, and
  \<open>track core dets_all frame_idx\<close>, which gives the per-hypothesis results and the next
  core state, or the exception the core raised.
\<close>

record ab3dmot =
  trackers :: "int list"
  core_frame_count :: int
  ID_count :: int

record dets_all =
  dets :: ndarray
  info :: ndarray

type_synonym core_track = "ab3dmot \<Rightarrow> dets_all \<Rightarrow> int \<Rightarrow> py_error + (real list list list \<times> ab3dmot)"

record RealtimeTracker =
  dataset :: string
  det_name :: string
  category :: string
  frame_count :: int
  tracker :: ab3dmot
  det_id2str :: "(int \<times> string) list"

text \<open>\<open>__init__\<close>; the configuration it loads is only handed on to the core.\<close>

definition RealtimeTracker_init ::
  "(string \<Rightarrow> int \<Rightarrow> ab3dmot) \<Rightarrow> string \<Rightarrow> string \<Rightarrow> string \<Rightarrow> int \<Rightarrow> py_error + RealtimeTracker" where
  "RealtimeTracker_init new_core ds dn cat ID_init =
     (if ds = ''KITTI'' then
        Inr \<lparr>dataset = ds, det_name = dn, category = cat, frame_count = 0,
             tracker = new_core cat ID_init, det_id2str = det_id2str_KITTI\<rparr>
      else if ds = ''nuScenes'' then
        Inr \<lparr>dataset = ds, det_name = dn, category = cat, frame_count = 0,
             tracker = new_core cat ID_init, det_id2str = det_id2str_nuScenes\<rparr>
      else Inl ValueError)"

definition get_type_id :: "RealtimeTracker \<Rightarrow> int" where
  "get_type_id rt =
     (case find (\<lambda>(type_id, type_name). type_name = category rt) (det_id2str rt) of
        Some (type_id, _) \<Rightarrow> type_id
      | None \<Rightarrow> 2)"

definition empty_dets_all :: dets_all where
  "empty_dets_all = \<lparr>dets = A2 7 [], info = A2 7 []\<rparr>"

text \<open>
  \<open>track_frame\<close>; \<open>prepare_dets\<close> is its part before the core is called. \<open>len(dets)\<close> of
  a rank-0 array raises TypeError, \<open>dets.shape[1]\<close> of a rank-1 array IndexError; a column
  count other than 7 or 8 raises the ValueError of the source. The call of the core is
  not guarded: what it raises is what the caller gets. The counter is incremented after
  the core returned.
\<close>

definition prepare_dets :: "RealtimeTracker \<Rightarrow> ndarray \<Rightarrow> ndarray option \<Rightarrow> py_error + dets_all" where
  "prepare_dets rt d additional_info =
     (case shape0 d of
        Inl _ \<Rightarrow> Inl TypeError
      | Inr n \<Rightarrow>
          if n = 0 then Inr empty_dets_all
          else (case shape1 d of
                  Inl e \<Rightarrow> Inl e
                | Inr c \<Rightarrow>
                    if c = 8 \<or> c = 7 then
                      (let scores = (if c = 8 then cols 7 8 d else np_full n 1 1);
                           d7 = (if c = 8 then cols 0 7 d else d)
                       in Inr \<lparr>dets = d7,
                               info = (case additional_info of
                                         None \<Rightarrow> hcat [cols 6 7 d7, np_full n 4 0,
                                                           np_full n 1 (real_of_int (get_type_id rt)), scores]
                                       | Some ai \<Rightarrow> ai)\<rparr>)
                    else Inl ValueError))"

definition track_frame ::
  "core_track \<Rightarrow> RealtimeTracker \<Rightarrow> ndarray \<Rightarrow> int option \<Rightarrow> ndarray option
     \<Rightarrow> py_error + (real list list \<times> RealtimeTracker)" where
  "track_frame track rt d frame_idx additional_info =
     (let fi = (case frame_idx of None \<Rightarrow> frame_count rt | Some i \<Rightarrow> i) in
      case prepare_dets rt d additional_info of
        Inl e \<Rightarrow> Inl e
      | Inr da \<Rightarrow>
          (case track (tracker rt) da fi of
             Inl e \<Rightarrow> Inl e
           | Inr (results, core') \<Rightarrow>
               Inr (case results of [] \<Rightarrow> [] | r0 # _ \<Rightarrow> r0,
                    rt\<lparr>tracker := core', frame_count := frame_count rt + 1\<rparr>)))"

definition get_active_tracks :: "RealtimeTracker \<Rightarrow> int list" where
  "get_active_tracks rt = trackers (tracker rt)"

definition reset :: "RealtimeTracker \<Rightarrow> RealtimeTracker" where
  "reset rt = rt\<lparr>tracker := (tracker rt)\<lparr>trackers := [], core_frame_count := 0\<rparr>, frame_count := 0\<rparr>"

text \<open>One call of \<open>track_frame\<close>: detections, frame index, additional info.\<close>

type_synonym frame_call = "ndarray \<times> int option \<times> ndarray option"

text \<open>A batch caller's loop over \<open>track_frame\<close>; the first exception ends it.\<close>

fun track_frames ::
  "core_track \<Rightarrow> RealtimeTracker \<Rightarrow> frame_call list \<Rightarrow> py_error + (real list list list \<times> RealtimeTracker)" where
  "track_frames track rt [] = Inr ([], rt)"
| "track_frames track rt ((d, fi, ai) # fs) =
     (case track_frame track rt d fi ai of
        Inl e \<Rightarrow> Inl e
      | Inr (res, rt') \<Rightarrow>
          (case track_frames track rt' fs of
             Inl e \<Rightarrow> Inl e
           | Inr (ress, rt'') \<Rightarrow> Inr (res # ress, rt'')))"

section \<open>rtmaps_components/rtmaps_ab3dmot_tracker.py: the live component\<close>

subsection \<open>Parsing the detection input\<close>

text \<open>
  What arrives on the detections input: a dictionary (its values taken as the arrays
  \<open>np.array\<close> makes of them), an array, or anything else, given by what \<open>np.array\<close> makes
  of it (an array or an exception).
\<close>

datatype payload = PDict "string \<rightharpoonup> ndarray" | PArray ndarray | POther "py_error + ndarray"

text \<open>\<open>self.tracker\<close> is None before \<open>Birth\<close>: calling a method on it raises AttributeError.\<close>

definition generate_default_info ::
  "RealtimeTracker option \<Rightarrow> nat \<Rightarrow> ndarray \<Rightarrow> ndarray option \<Rightarrow> py_error + ndarray" where
  "generate_default_info trk N d scores =
     (case trk of
        None \<Rightarrow> Inl AttributeError
      | Some rt \<Rightarrow>
          Inr (hcat [cols 6 7 d, np_full N 4 0, np_full N 1 (real_of_int (get_type_id rt)),
                     (case scores of None \<Rightarrow> np_full N 1 1 | Some sc \<Rightarrow> sc)]))"

text \<open>The dispatch on \<open>input_data.shape[1]\<close> of a rank-2 array with at least one row.\<close>

definition parse_columns :: "RealtimeTracker option \<Rightarrow> ndarray \<Rightarrow> py_error + dets_all" where
  "parse_columns trk a =
     (let N = length (rows_of a) in
      if ncols a = 7 then
        (case generate_default_info trk N a None of
           Inl e \<Rightarrow> Inl e
         | Inr i \<Rightarrow> Inr \<lparr>dets = a, info = i\<rparr>)
      else if ncols a = 8 then
        (case generate_default_info trk N (cols 0 7 a) (Some (cols 7 8 a)) of
           Inl e \<Rightarrow> Inl e
         | Inr i \<Rightarrow> Inr \<lparr>dets = cols 0 7 a, info = i\<rparr>)
      else if ncols a = 15 then
        (case trk of
           None \<Rightarrow> Inl AttributeError
         | Some rt \<Rightarrow>
             Inr \<lparr>dets = cols 6 13 a,
                  info = hcat [cols 13 14 a, cols 1 5 a,
                               np_full N 1 (real_of_int (get_type_id rt)), cols 14 15 a]\<rparr>)
      else
        (case generate_default_info trk N (cols 0 7 a) None of
           Inl e \<Rightarrow> Inl e
         | Inr i \<Rightarrow> Inr \<lparr>dets = cols 0 7 a, info = i\<rparr>))"

text \<open>
  The two reshaping steps of the component: a single row whose length is a multiple of 8
  becomes rows of 8; a flat buffer becomes rows of 8 when its length is a multiple of 8
  and one row otherwise.
\<close>

fun unflatten :: "ndarray \<Rightarrow> ndarray" where
  "unflatten (A2 c rs) =
     (if length rs = 1 \<and> c mod 8 = 0 then reshape_rows (c div 8) 8 (concat rs) else A2 c rs)"
| "unflatten (A1 xs) =
     (if length xs mod 8 = 0 then reshape_rows (length xs div 8) 8 xs else A2 (length xs) [xs])"
| "unflatten (A0 v) = A0 v"

definition parse_ndarray :: "RealtimeTracker option \<Rightarrow> ndarray \<Rightarrow> py_error + dets_all" where
  "parse_ndarray trk input_data =
     (case shape0 input_data of
        Inl e \<Rightarrow> Inl e
      | Inr n0 \<Rightarrow> if n0 = 0 then Inr empty_dets_all else parse_columns trk (unflatten input_data))"

text \<open>
  The dictionary branch, the same in both versions of the component. A dictionary that
  lacks one of the keys falls through to the conversion \<open>np.array(input_data)\<close>, a rank-0
  array, on which \<open>shape[0]\<close> raises IndexError.
\<close>

definition parse_dict :: "(string \<rightharpoonup> ndarray) \<Rightarrow> py_error + dets_all" where
  "parse_dict d =
     (case d ''dets'' of
        None \<Rightarrow> Inl IndexError
      | Some dv \<Rightarrow>
          (case d ''info'' of
             None \<Rightarrow> Inl IndexError
           | Some iv \<Rightarrow> Inr \<lparr>dets = ensure_2d dv, info = ensure_2d iv\<rparr>))"

text \<open>
  \<open>_parse_detection_input\<close> of the component: the whole body stands in a \<open>try\<close> whose
  handler returns the empty detections, so the function always returns.
\<close>

definition parse_detection_input :: "RealtimeTracker option \<Rightarrow> payload \<Rightarrow> dets_all" where
  "parse_detection_input trk input_data =
     (case (case input_data of
              PDict d \<Rightarrow> parse_dict d
            | PArray a \<Rightarrow> parse_ndarray trk a
            | POther conv \<Rightarrow> (case conv of Inl e \<Rightarrow> Inl e | Inr a \<Rightarrow> parse_ndarray trk a)) of
        Inl _ \<Rightarrow> empty_dets_all
      | Inr r \<Rightarrow> r)"

text \<open>The dictionary a \<open>dets_all\<close> value is in Python.\<close>

definition as_dict :: "dets_all \<Rightarrow> (string \<rightharpoonup> ndarray)" where
  "as_dict r = [''dets'' \<mapsto> dets r, ''info'' \<mapsto> info r]"




subsection \<open>rtmaps_ab3dmot_tracker.py: the first version of the parser\<close>

text \<open>
  The version at the top of the repository has no outer \<open>try\<close> and no reshaping to rows of
  8: a flat buffer always becomes one row, and an exception of the array branch reaches
  the caller. Only the conversion of an unknown input is guarded.
\<close>

definition parse_ndarray_basic :: "RealtimeTracker option \<Rightarrow> ndarray \<Rightarrow> py_error + dets_all" where
  "parse_ndarray_basic trk input_data =
     (case shape0 input_data of
        Inl e \<Rightarrow> Inl e
      | Inr n0 \<Rightarrow> if n0 = 0 then Inr empty_dets_all else parse_columns trk (ensure_2d input_data))"

definition parse_detection_input_basic :: "RealtimeTracker option \<Rightarrow> payload \<Rightarrow> py_error + dets_all" where
  "parse_detection_input_basic trk input_data =
     (case input_data of
        PDict d \<Rightarrow> (case parse_dict d of Inl _ \<Rightarrow> Inr empty_dets_all | Inr r \<Rightarrow> Inr r)
      | PArray a \<Rightarrow> parse_ndarray_basic trk a
      | POther conv \<Rightarrow>
          (case conv of
             Inl _ \<Rightarrow> Inr empty_dets_all
           | Inr a \<Rightarrow> (case parse_ndarray_basic trk a of Inl _ \<Rightarrow> Inr empty_dets_all | Inr r \<Rightarrow> Inr r)))"

subsection \<open>The tracking step\<close>

text \<open>
  \<open>_simple_tracking_fallback\<close>: one result per pair of a detection and its info row, the
  track id made of the frame index and the position. Unpacking a row that does not have
  seven values raises inside the function's own \<open>try\<close>, which then returns no result.
\<close>

definition simple_tracking_fallback :: "ndarray \<Rightarrow> ndarray \<Rightarrow> int \<Rightarrow> real list list" where
  "simple_tracking_fallback d i frame_idx =
     (if rows_of d = [] then []
      else if list_all (\<lambda>(det, inf). length det = 7 \<and> length inf = 7) (zip (rows_of d) (rows_of i))
      then map (\<lambda>(k, (det, inf)).
                  det @ [real_of_int (frame_idx * 100 + int k), inf ! 0, inf ! 5,
                         inf ! 1, inf ! 2, inf ! 3, inf ! 4, inf ! 6])
               (enumerate 0 (zip (rows_of d) (rows_of i)))
      else [])"

text \<open>
  The body of the inner \<open>try\<close> of \<open>Core\<close>: the two shape checks, then the fallback.
  \<open>shape[1]\<close> of an array of rank below 2 raises.
\<close>

definition tracking_step :: "ndarray \<Rightarrow> ndarray \<Rightarrow> int \<Rightarrow> py_error + real list list" where
  "tracking_step d i frame_idx =
     (case shape1 d of
        Inl e \<Rightarrow> Inl e
      | Inr c \<Rightarrow>
          if c \<noteq> 7 then Inr []
          else (case shape1 i of
                  Inl e \<Rightarrow> Inl e
                | Inr ci \<Rightarrow> if ci \<noteq> 7 then Inr [] else Inr (simple_tracking_fallback d i frame_idx)))"

text \<open>The cap on the output and the check after it.\<close>

definition limit_output :: "real list list \<Rightarrow> real list list" where
  "limit_output tracking_results =
     (let max_safe_tracks = 1;
          limited = (if length tracking_results > max_safe_tracks
                     then take max_safe_tracks tracking_results else tracking_results)
      in if length limited > 1 then [] else limited)"

subsection \<open>The component and its state\<close>

text \<open>The properties the host keeps for the component, read by \<open>get_property\<close>.\<close>

record props =
  p_dataset :: string
  p_det_name :: string
  p_category :: string
  p_ID_init :: int
  p_enable_ego_motion :: bool
  p_verbose :: bool
  p_max_fps :: real
  p_max_errors :: int
  p_max_output_tracks :: int

text \<open>
  The attributes of \<open>rtmaps_python\<close>. \<open>self.tracker\<close> is a reference: \<open>objects\<close> holds every
  \<open>RealtimeTracker\<close> constructed so far and \<open>c_tracker\<close> is None or the position of the
  current one, so that constructing a new tracker and changing an old one are different
  things. \<open>c_frame_count\<close> is the component's own \<open>frame_count\<close>.
\<close>

record rtmaps_python =
  c_tracker :: "nat option"
  objects :: "RealtimeTracker list"
  c_frame_count :: int
  last_process_time :: real
  min_process_interval :: real
  error_count :: int
  max_errors :: int
  max_output_tracks :: int
  verbose :: bool
  properties :: props

text \<open>
  \<open>__init__\<close>. The attributes \<open>verbose\<close> and \<open>max_output_tracks\<close> exist only from \<open>Birth\<close> on;
  they start here with the values \<open>Birth\<close> would read.
\<close>

definition rtmaps_python_init :: "props \<Rightarrow> rtmaps_python" where
  "rtmaps_python_init p =
     \<lparr>c_tracker = None, objects = [], c_frame_count = 0, last_process_time = 0,
      min_process_interval = 0.02, error_count = 0, max_errors = 10,
      max_output_tracks = p_max_output_tracks p, verbose = p_verbose p, properties = p\<rparr>"

definition install_tracker :: "rtmaps_python \<Rightarrow> RealtimeTracker \<Rightarrow> rtmaps_python" where
  "install_tracker c rt = c\<lparr>objects := objects c @ [rt], c_tracker := Some (length (objects c))\<rparr>"

definition current_tracker :: "rtmaps_python \<Rightarrow> RealtimeTracker option" where
  "current_tracker c =
     (case c_tracker c of
        None \<Rightarrow> None
      | Some r \<Rightarrow> if r < length (objects c) then Some (objects c ! r) else None)"

text \<open>\<open>Birth\<close>: an exception of the constructor is reported and raised again.\<close>

definition Birth :: "(string \<Rightarrow> int \<Rightarrow> ab3dmot) \<Rightarrow> rtmaps_python \<Rightarrow> py_error + rtmaps_python" where
  "Birth new_core c =
     (let p = properties c;
          c1 = c\<lparr>verbose := p_verbose p, max_errors := p_max_errors p,
                 max_output_tracks := p_max_output_tracks p,
                 min_process_interval := (if p_max_fps p > 0 then 1 / p_max_fps p else 0.01)\<rparr>
      in case RealtimeTracker_init new_core (p_dataset p) (p_det_name p) (p_category p) (p_ID_init p) of
           Inl e \<Rightarrow> Inl e
         | Inr rt \<Rightarrow> Inr ((install_tracker c1 rt)\<lparr>c_frame_count := 0\<rparr>))"

text \<open>
  What one call of \<open>Core\<close> finds: the clock, the detections input (\<open>has_data\<close>; the element,
  None or its timestamp with its data, None or a payload) and the frame index input
  (None when it has no data).
\<close>

record frame_input =
  now :: real
  has_data :: bool
  detections :: "(int \<times> payload option) option"
  frame_idx_in :: "int option"

text \<open>What one call writes to the three outputs, under one timestamp.\<close>

record outputs =
  out_ts :: int
  tracks :: "real list list"
  num_tracks :: int
  track_ids :: "int list"

text \<open>
  How a call of \<open>Core\<close> ended: at the rate limit, at the error limit, without data (these
  three write nothing), after the tracking step with its outputs, or in the outer
  handler, which writes empty outputs.
\<close>

datatype outcome = RateLimited | CircuitOpen | NoData | Processed outputs | Failed outputs

text \<open>What a call wrote to the tracks output: nothing, or one array of result rows.\<close>

fun tracks_written :: "outcome \<Rightarrow> real list list option" where
  "tracks_written (Processed out) = Some (tracks out)"
| "tracks_written (Failed out) = Some (tracks out)"
| "tracks_written _ = None"

text \<open>The reset every 100 frames; an exception of the constructor is only reported.\<close>

definition periodic_reset :: "(string \<Rightarrow> int \<Rightarrow> ab3dmot) \<Rightarrow> rtmaps_python \<Rightarrow> rtmaps_python" where
  "periodic_reset new_core c =
     (if c_frame_count c mod 100 = 0 then
        (let p = properties c in
         case RealtimeTracker_init new_core (p_dataset p) (p_det_name p) (p_category p) (p_ID_init p) of
           Inl _ \<Rightarrow> c
         | Inr rt \<Rightarrow> install_tracker c rt)
      else c)"

text \<open>
  The part of \<open>Core\<close> from the parsing on, for a frame that passed the gates and has data.
  The calls into the host (logging, reading the inputs, writing the outputs) are taken
  not to raise. The one exception that then reaches the outer handler is the TypeError
  of \<open>len(dets_data['dets'])\<close> on a rank-0 array, evaluated when \<open>verbose\<close> is set; an
  exception of the tracking step is caught by the inner handler.
\<close>

definition process_frame ::
  "(string \<Rightarrow> int \<Rightarrow> ab3dmot) \<Rightarrow> rtmaps_python \<Rightarrow> real \<Rightarrow> int \<Rightarrow> payload \<Rightarrow> int option
     \<Rightarrow> rtmaps_python \<times> outcome" where
  "process_frame new_core c current_time timestamp data idx_in =
     (let frame_idx = (case idx_in of Some i \<Rightarrow> i | None \<Rightarrow> c_frame_count c);
          dets_data = parse_detection_input (current_tracker c) data
      in if verbose c \<and> ndim (dets dets_data) = 0 then
           (c\<lparr>error_count := error_count c + 1\<rparr>,
            Failed \<lparr>out_ts = timestamp, tracks = [], num_tracks = 0, track_ids = []\<rparr>)
         else
           (let tracking_results =
                  (case tracking_step (dets dets_data) (info dets_data) frame_idx of
                     Inl _ \<Rightarrow> []
                   | Inr r \<Rightarrow> r);
                active_track_ids =
                  (case current_tracker c of None \<Rightarrow> [] | Some rt \<Rightarrow> get_active_tracks rt);
                limited = limit_output tracking_results;
                out = \<lparr>out_ts = timestamp,
                       tracks = (if length limited > 1 then [] else limited),
                       num_tracks = int (length limited),
                       track_ids = active_track_ids\<rparr>;
                c2 = c\<lparr>last_process_time := current_time, c_frame_count := c_frame_count c + 1\<rparr>
            in (periodic_reset new_core c2, Processed out)))"

text \<open>\<open>Core\<close>: the rate limit, the error limit, the reset of the error counter, the data checks.\<close>

definition Core :: "(string \<Rightarrow> int \<Rightarrow> ab3dmot) \<Rightarrow> rtmaps_python \<Rightarrow> frame_input \<Rightarrow> rtmaps_python \<times> outcome" where
  "Core new_core c f =
     (if now f - last_process_time c < min_process_interval c then (c, RateLimited)
      else if error_count c \<ge> max_errors c then (c, CircuitOpen)
      else
        (let c1 = c\<lparr>error_count := 0\<rparr> in
         if \<not> has_data f then (c1, NoData)
         else (case detections f of
                 None \<Rightarrow> (c1, NoData)
               | Some (timestamp, None) \<Rightarrow> (c1, NoData)
               | Some (timestamp, Some data) \<Rightarrow>
                   process_frame new_core c1 (now f) timestamp data (frame_idx_in f))))"

text \<open>The host calling \<open>Core\<close> once per arriving frame.\<close>

fun Core_run ::
  "(string \<Rightarrow> int \<Rightarrow> ab3dmot) \<Rightarrow> rtmaps_python \<Rightarrow> frame_input list \<Rightarrow> rtmaps_python \<times> outcome list" where
  "Core_run new_core c [] = (c, [])"
| "Core_run new_core c (f # fs) =
     (case Core new_core c f of
        (c', oc) \<Rightarrow> (case Core_run new_core c' fs of (c'', ocs) \<Rightarrow> (c'', oc # ocs)))"

subsection \<open>Values for the concrete runs\<close>

text \<open>
  The property values that \<open>Dynamic\<close> declares, and a stand-in for the external core, used
  where a theorem below is evaluated on a concrete run: a core that starts without tracks
  and whose \<open>track\<close> answers every frame with one hypothesis holding no result.
\<close>

definition default_props :: props where
  "default_props =
     \<lparr>p_dataset = ''KITTI'', p_det_name = ''pointrcnn'', p_category = ''Car'', p_ID_init = 0,
      p_enable_ego_motion = False, p_verbose = False, p_max_fps = 50, p_max_errors = 10,
      p_max_output_tracks = 5\<rparr>"

definition idle_core :: "string \<Rightarrow> int \<Rightarrow> ab3dmot" where
  "idle_core cat ID_init = \<lparr>trackers = [], core_frame_count = 0, ID_count = ID_init\<rparr>"

definition idle_track :: core_track where
  "idle_track core da frame_idx = Inr ([[]], core\<lparr>core_frame_count := core_frame_count core + 1\<rparr>)"

text \<open>
  The component after \<open>Birth\<close> with the stand-in core (as constructed, should \<open>Birth\<close> raise),
  and two frames arriving at clock reading \<open>t\<close>: one carrying a single 7-column detection
  and no frame index, one carrying a dictionary whose two entries are rank-0 arrays.
\<close>

definition born :: "props \<Rightarrow> rtmaps_python" where
  "born p = (case Birth idle_core (rtmaps_python_init p) of Inr c \<Rightarrow> c | Inl e \<Rightarrow> rtmaps_python_init p)"

definition car_frame :: "real \<Rightarrow> frame_input" where
  "car_frame t =
     \<lparr>now = t, has_data = True,
      detections = Some (0, Some (PArray (A2 7 [[1.5, 1.8, 4.5, 10, 0, 30, 0.1]]))),
      frame_idx_in = None\<rparr>"

definition scalar_frame :: "real \<Rightarrow> frame_input" where
  "scalar_frame t =
     \<lparr>now = t, has_data = True,
      detections = Some (0, Some (PDict [''dets'' \<mapsto> A0 0, ''info'' \<mapsto> A0 0])),
      frame_idx_in = None\<rparr>"

section \<open>Properties of the exporter\<close>

lemma csv_header_text:
  "csv_text get_csv_header = ''frame,track_id,object_type,truncated,occluded,alpha,bbox_left,bbox_top,bbox_right,bbox_bottom,height_3d,width_3d,length_3d,x_3d,y_3d,z_3d,rotation_y,confidence_score''"
  by (simp add: get_csv_header_def)

lemma length_csv_row_of: "length (csv_row_of r ty frame) = 18"
  by (simp add: csv_row_of_def Let_def)

lemma csv_row_of_flags: "csv_row_of r ty frame ! 3 = CInt 0 \<and> csv_row_of r ty frame ! 4 = CInt 0"
  by (simp add: csv_row_of_def Let_def)

lemma csv_row_of_conf: "csv_row_of r ty frame ! 17 = CNum (r ! 14)"
  by (simp add: csv_row_of_def Let_def)

lemma good_row_csv_row_of: "good_row (csv_row_of r ty frame)"
  by (simp add: good_row_def length_csv_row_of csv_row_of_flags)

lemma good_file_append_row:
  "good_file fs n \<Longrightarrow> good_file (append_row fs name (csv_row_of r ty frame)) n"
  by (auto simp: good_file_def append_row_def good_row_csv_row_of)

lemma export_result_good_file:
  "export_result e r hypo tbl frame T = Inr e' \<Longrightarrow> good_file (files e) n \<Longrightarrow> good_file (files e') n"
  by (auto simp: export_result_def good_file_append_row split: option.splits if_splits)

lemma export_results_good_file:
  "export_results e calls = Inr e' \<Longrightarrow> good_file (files e) n \<Longrightarrow> good_file (files e') n"
proof (induction calls arbitrary: e)
  case Nil
  then show ?case by simp
next
  case (Cons c cs)
  obtain r hypo tbl frame T where c: "c = (r, hypo, tbl, frame, T)"
    by (cases c) auto
  from Cons.prems(1) c obtain e1 where
    step: "export_result e r hypo tbl frame T = Inr e1" and rest: "export_results e1 cs = Inr e'"
    by (auto split: sum.splits)
  from export_result_good_file [OF step Cons.prems(2)] have "good_file (files e1) n" .
  with Cons.IH [OF rest] show ?case .
qed

lemma open_all_files:
  "hypo < n \<Longrightarrow>
   files (foldl (open_hypo seq_name) e [0..<n]) (csv_filename hypo seq_name) = Some [map CStr get_csv_header] \<and>
   csv_writers (foldl (open_hypo seq_name) e [0..<n]) (int hypo) = Some (csv_filename hypo seq_name) \<and>
   csv_files (foldl (open_hypo seq_name) e [0..<n]) (int hypo)
     = Some \<lparr>io_name = csv_filename hypo seq_name, io_mode = ''w'', io_newline = '''', io_encoding = ''utf-8''\<rparr>"
proof (induction n)
  case 0
  then show ?case by simp
next
  case (Suc n)
  show ?case
  proof (cases "hypo = n")
    case True
    then show ?thesis by (simp add: open_hypo_def)
  next
    case False
    with Suc.prems have "hypo < n" by simp
    with Suc.IH show ?thesis using False by (simp add: open_hypo_def)
  qed
qed

lemma num_hypo_close: "num_hypo (close_files e) = num_hypo e"
  by (simp add: close_files_def)

lemma init_sequence_files_opened:
  "hypo < num_hypo e \<Longrightarrow>
   files (init_sequence_files e seq_name) (csv_filename hypo seq_name) = Some [map CStr get_csv_header] \<and>
   csv_writers (init_sequence_files e seq_name) (int hypo) = Some (csv_filename hypo seq_name) \<and>
   csv_files (init_sequence_files e seq_name) (int hypo)
     = Some \<lparr>io_name = csv_filename hypo seq_name, io_mode = ''w'', io_newline = '''', io_encoding = ''utf-8''\<rparr>"
  unfolding init_sequence_files_def by (rule open_all_files)

lemma csv_filename_H0: "csv_filename 0 ''0001'' = ''tracking_results_H0_0001.csv''"
  by (simp add: csv_filename_def str_nat.simps digit_char_def)

lemma init_one_hypo:
  "init_sequence_files (CSVExporter_init ''out'' 1 Map.empty) ''0001'' =
     \<lparr>save_dir = ''out'', num_hypo = 1,
      csv_files = [0 \<mapsto> \<lparr>io_name = ''tracking_results_H0_0001.csv'', io_mode = ''w'', io_newline = '''',
                           io_encoding = ''utf-8''\<rparr>],
      csv_writers = [0 \<mapsto> ''tracking_results_H0_0001.csv''],
      files = [''tracking_results_H0_0001.csv'' \<mapsto> [map CStr get_csv_header]]\<rparr>"
  by (simp add: init_sequence_files_def CSVExporter_init_def close_files_def open_hypo_def csv_filename_H0)

lemma lookup_type_Car: "lookup_type det_id2str_KITTI 2 = Some ''Car''"
  by (simp add: lookup_type_def det_id2str_KITTI_def)

lemma lookup_type_4: "lookup_type det_id2str_KITTI 4 = None"
  by (simp add: lookup_type_def det_id2str_KITTI_def)

text \<open>
  Claim C6, as the code has it. \<open>export_result\<close> returns at once, writing nothing, when the
  hypothesis index has no open writer. For a hypothesis with an open writer and a result
  of fifteen fields whose type id is a key of the category table, it appends exactly one
  row to that hypothesis's file when the confidence is at least the threshold (equality
  included), and the last cell of the row is the confidence of the result itself; below
  the threshold it leaves the exporter as it was.
\<close>

theorem export_result_contract:
  "(csv_writers e hypo = None \<longrightarrow> export_result e r hypo tbl frame T = Inr e) \<and>
   (csv_writers e hypo = Some name \<and> files e name = Some rows \<and> length r = 15 \<and>
    lookup_type tbl (r ! 9) = Some ty \<longrightarrow>
      (T \<le> r ! 14 \<longrightarrow>
         export_result e r hypo tbl frame T
           = Inr (e\<lparr>files := (files e)(name \<mapsto> rows @ [csv_row_of r ty frame])\<rparr>) \<and>
         csv_row_of r ty frame ! 17 = CNum (r ! 14)) \<and>
      (r ! 14 < T \<longrightarrow> export_result e r hypo tbl frame T = Inr e))"
  by (auto simp: export_result_def append_row_def csv_row_of_conf)

theorem export_result_contract_witness:
  "export_result (init_sequence_files (CSVExporter_init ''out'' 1 Map.empty) ''0001'')
      [1.5, 1.8, 4.5, 10, 0, 30, 0.1, 7, 0.1, 2, 0, 0, 0, 0, 0.9] 0 det_id2str_KITTI 3 0.9
    = Inr ((init_sequence_files (CSVExporter_init ''out'' 1 Map.empty) ''0001'')
            \<lparr>files := [''tracking_results_H0_0001.csv'' \<mapsto>
               [map CStr get_csv_header,
                csv_row_of [1.5, 1.8, 4.5, 10, 0, 30, 0.1, 7, 0.1, 2, 0, 0, 0, 0, 0.9] ''Car'' 3]]\<rparr>) \<and>
   csv_row_of [1.5, 1.8, 4.5, 10, 0, 30, 0.1, 7, 0.1, 2, 0, 0, 0, 0, 0.9] ''Car'' 3 ! 17 = CNum 0.9 \<and>
   export_result (init_sequence_files (CSVExporter_init ''out'' 1 Map.empty) ''0001'')
      [1.5, 1.8, 4.5, 10, 0, 30, 0.1, 7, 0.1, 2, 0, 0, 0, 0, 0.9] 0 det_id2str_KITTI 3 0.95
    = Inr (init_sequence_files (CSVExporter_init ''out'' 1 Map.empty) ''0001'')"
  using export_result_contract
          [of "init_sequence_files (CSVExporter_init ''out'' 1 Map.empty) ''0001''" 0
              "[1.5, 1.8, 4.5, 10, 0, 30, 0.1, 7, 0.1, 2, 0, 0, 0, 0, 0.9]" det_id2str_KITTI 3 "0.9"
              "''tracking_results_H0_0001.csv''" "[map CStr get_csv_header]" "''Car''"]
        export_result_contract
          [of "init_sequence_files (CSVExporter_init ''out'' 1 Map.empty) ''0001''" 0
              "[1.5, 1.8, 4.5, 10, 0, 30, 0.1, 7, 0.1, 2, 0, 0, 0, 0, 0.9]" det_id2str_KITTI 3 "0.95"
              "''tracking_results_H0_0001.csv''" "[map CStr get_csv_header]" "''Car''"]
  unfolding init_one_hypo by (simp add: lookup_type_Car)

text \<open>
  Claim C6 as stated fails: with one hypothesis opened, a result of confidence 0.9 under
  threshold 0.5 is not written for hypothesis index 1 (the exporter is unchanged), and a
  result whose type id 4 is no key of the KITTI table raises KeyError for hypothesis 0.
\<close>

theorem export_result_counterexample:
  "(0.5::real) \<le> [1.5, 1.8, 4.5, 10, 0, 30, 0.1, 7, 0.1, 2, 0, 0, 0, 0, 0.9] ! 14 \<and>
   export_result (init_sequence_files (CSVExporter_init ''out'' 1 Map.empty) ''0001'')
      [1.5, 1.8, 4.5, 10, 0, 30, 0.1, 7, 0.1, 2, 0, 0, 0, 0, 0.9] 1 det_id2str_KITTI 3 0.5
    = Inr (init_sequence_files (CSVExporter_init ''out'' 1 Map.empty) ''0001'') \<and>
   (0.5::real) \<le> [1.5, 1.8, 4.5, 10, 0, 30, 0.1, 7, 0.1, 4, 0, 0, 0, 0, 0.9] ! 14 \<and>
   export_result (init_sequence_files (CSVExporter_init ''out'' 1 Map.empty) ''0001'')
      [1.5, 1.8, 4.5, 10, 0, 30, 0.1, 7, 0.1, 4, 0, 0, 0, 0, 0.9] 0 det_id2str_KITTI 3 0.5
    = Inl KeyError"
  unfolding init_one_hypo by (simp add: export_result_def lookup_type_4)

lemma csv_filename_H1: "csv_filename 1 ''0001'' = ''tracking_results_H1_0001.csv''"
  by (simp add: csv_filename_def str_nat.simps digit_char_def)

lemma upt_0_2: "[0..<2] = [0, Suc 0]"
  by (simp add: upt_rec)

lemma init_two_hypo:
  "init_sequence_files (CSVExporter_init ''out'' 2 Map.empty) ''0001'' =
     \<lparr>save_dir = ''out'', num_hypo = 2,
      csv_files = [0 \<mapsto> \<lparr>io_name = ''tracking_results_H0_0001.csv'', io_mode = ''w'', io_newline = '''',
                           io_encoding = ''utf-8''\<rparr>,
                   1 \<mapsto> \<lparr>io_name = ''tracking_results_H1_0001.csv'', io_mode = ''w'', io_newline = '''',
                           io_encoding = ''utf-8''\<rparr>],
      csv_writers = [0 \<mapsto> ''tracking_results_H0_0001.csv'', 1 \<mapsto> ''tracking_results_H1_0001.csv''],
      files = [''tracking_results_H0_0001.csv'' \<mapsto> [map CStr get_csv_header],
               ''tracking_results_H1_0001.csv'' \<mapsto> [map CStr get_csv_header]]\<rparr>"
  by (simp add: init_sequence_files_def CSVExporter_init_def close_files_def open_hypo_def
        upt_0_2 csv_filename_H0 csv_filename_H1 [simplified])

lemma less_10_cases:
  "d < 10 \<Longrightarrow> d = 0 \<or> d = 1 \<or> d = 2 \<or> d = 3 \<or> d = 4 \<or> d = 5 \<or> d = 6 \<or> d = 7 \<or> d = 8 \<or> d = (9::nat)"
  by arith

lemma digit_val_digit_char:
  assumes "d < 10"
  shows "digit_val (digit_char d) = d"
  using less_10_cases [OF assms] by (elim disjE) (simp_all add: digit_val_def digit_char_def)

lemma digit_char_digit:
  assumes "d < 10"
  shows "digit_char d \<in> set ''0123456789''"
  using less_10_cases [OF assms] by (elim disjE) (simp_all add: digit_char_def)

lemma val_digits_snoc: "val_digits (xs @ [c]) = 10 * val_digits xs + digit_val c"
  by (simp add: val_digits_def)

lemma val_digits_str_nat: "val_digits (str_nat n) = n"
proof (induction n rule: str_nat.induct)
  case (1 n)
  show ?case
  proof (cases "n < 10")
    case True
    then have "str_nat n = [digit_char n]" by (simp add: str_nat.simps)
    with True show ?thesis by (simp add: val_digits_def digit_val_digit_char)
  next
    case False
    then have e: "str_nat n = str_nat (n div 10) @ [digit_char (n mod 10)]"
      by (simp add: str_nat.simps [of n])
    have m: "digit_val (digit_char (n mod 10)) = n mod 10"
      by (rule digit_val_digit_char) simp
    from "1.IH" [OF False] have "val_digits (str_nat (n div 10)) = n div 10" .
    then show ?thesis unfolding e val_digits_snoc m by simp
  qed
qed

lemma str_nat_digits: "set (str_nat n) \<subseteq> set ''0123456789''"
proof (induction n rule: str_nat.induct)
  case (1 n)
  show ?case
  proof (cases "n < 10")
    case True
    then have "str_nat n = [digit_char n]" by (simp add: str_nat.simps)
    with digit_char_digit [OF True] show ?thesis by simp
  next
    case False
    then have e: "str_nat n = str_nat (n div 10) @ [digit_char (n mod 10)]"
      by (simp add: str_nat.simps [of n])
    have "digit_char (n mod 10) \<in> set ''0123456789''"
      by (rule digit_char_digit) simp
    with "1.IH" [OF False] show ?thesis unfolding e by simp
  qed
qed

lemma str_nat_inj:
  assumes "str_nat a = str_nat b"
  shows "a = b"
proof -
  from assms have "val_digits (str_nat a) = val_digits (str_nat b)" by (simp only:)
  then show ?thesis by (simp only: val_digits_str_nat)
qed

lemma csv_filename_inj:
  assumes "csv_filename a s = csv_filename b s"
  shows "a = b"
proof -
  from assms have "str_nat a @ (''_'' @ s @ ''.csv'') = str_nat b @ (''_'' @ s @ ''.csv'')"
    by (simp add: csv_filename_def)
  then have "str_nat a = str_nat b" by (simp only: append_same_eq)
  then show ?thesis by (rule str_nat_inj)
qed

lemma header_ascii: "list_all (list_all (\<lambda>c. of_char c < (128::nat))) get_csv_header"
  by (simp add: get_csv_header_def)

lemma open_hypo_writers:
  "csv_writers (open_hypo s e n) h = (if h = int n then Some (csv_filename n s) else csv_writers e h)"
  by (simp add: open_hypo_def)

lemma open_all_writers:
  "csv_writers (foldl (open_hypo s) e [0..<n]) h = Some nm \<Longrightarrow>
   csv_writers e h = Some nm \<or> (\<exists>k<n. h = int k \<and> nm = csv_filename k s)"
proof (induction n)
  case 0
  then show ?case by simp
next
  case (Suc n)
  have f: "foldl (open_hypo s) e [0..<Suc n] = open_hypo s (foldl (open_hypo s) e [0..<n]) n"
    by simp
  show ?case
  proof (cases "h = int n")
    case True
    with Suc.prems have "nm = csv_filename n s" unfolding f open_hypo_writers by simp
    with True show ?thesis by auto
  next
    case False
    with Suc.prems have "csv_writers (foldl (open_hypo s) e [0..<n]) h = Some nm"
      unfolding f open_hypo_writers by simp
    from Suc.IH [OF this] show ?thesis by auto
  qed
qed

lemma init_writer_of_file:
  assumes "csv_writers (init_sequence_files e0 s) h = Some (csv_filename hypo s)"
  shows "h = int hypo"
proof -
  from open_all_writers [of s "close_files e0" "num_hypo (close_files e0)" h "csv_filename hypo s"] assms
  obtain k where "h = int k" and "csv_filename hypo s = csv_filename k s"
    by (auto simp: init_sequence_files_def close_files_def)
  with csv_filename_inj [of hypo s k] show ?thesis by simp
qed

lemma export_result_keeps:
  "export_result e r h tbl frame T = Inr e1 \<Longrightarrow>
   csv_writers e1 = csv_writers e \<and> csv_files e1 = csv_files e"
  by (auto simp: export_result_def split: option.splits if_splits)

lemma export_result_rows:
  assumes step: "export_result e r h tbl frame T = Inr e1"
    and wr: "csv_writers e k = Some nm"
    and only: "\<And>h'. csv_writers e h' = Some nm \<Longrightarrow> h' = k"
    and fl: "files e nm = Some rows"
  shows "files e1 nm = Some (rows @ spec_exported_rows k [(r, h, tbl, frame, T)])"
proof (cases "csv_writers e h")
  case None
  with wr have "h \<noteq> k" by auto
  with None step fl show ?thesis by (simp add: export_result_def)
next
  case (Some nm')
  show ?thesis
  proof (cases "h = k")
    case True
    with Some wr have "nm' = nm" by simp
    with Some step fl True show ?thesis
      by (auto simp: export_result_def append_row_def split: option.splits if_splits)
  next
    case False
    with only [of h] Some have "nm' \<noteq> nm" by auto
    with Some step fl False show ?thesis
      by (auto simp: export_result_def append_row_def split: option.splits if_splits)
  qed
qed

lemma spec_exported_rows_Cons: "spec_exported_rows k (c # cs) = spec_exported_rows k [c] @ spec_exported_rows k cs"
  by (cases c) simp

lemma export_results_rows:
  assumes "export_results e calls = Inr e'"
    and "csv_writers e k = Some nm"
    and "\<And>h'. csv_writers e h' = Some nm \<Longrightarrow> h' = k"
    and "files e nm = Some rows"
  shows "files e' nm = Some (rows @ spec_exported_rows k calls) \<and> csv_files e' = csv_files e"
  using assms
proof (induction calls arbitrary: e rows)
  case Nil
  from Nil.prems(1) Nil.prems(4) show ?case by simp
next
  case (Cons c cs)
  obtain r h tbl frame T where c: "c = (r, h, tbl, frame, T)"
    by (cases c) auto
  from Cons.prems(1) c obtain e1 where
    step: "export_result e r h tbl frame T = Inr e1" and rest: "export_results e1 cs = Inr e'"
    by (auto split: sum.splits)
  from export_result_keeps [OF step]
  have w: "csv_writers e1 = csv_writers e" and f: "csv_files e1 = csv_files e" by simp_all
  from export_result_rows [OF step Cons.prems(2) Cons.prems(3) Cons.prems(4)]
  have r1: "files e1 nm = Some (rows @ spec_exported_rows k [c])" unfolding c by simp
  have w1: "csv_writers e1 k = Some nm" unfolding w by (rule Cons.prems(2))
  have o1: "\<And>h'. csv_writers e1 h' = Some nm \<Longrightarrow> h' = k" unfolding w by (rule Cons.prems(3))
  from Cons.IH [OF rest w1 o1 r1]
  have "files e' nm = Some ((rows @ spec_exported_rows k [c]) @ spec_exported_rows k cs)"
    and "csv_files e' = csv_files e1" by simp_all
  with f show ?case by (simp add: spec_exported_rows_Cons [of k c cs])
qed

lemma spec_exported_rows_good: "list_all good_row (spec_exported_rows k calls)"
proof (induction calls)
  case Nil
  show ?case by simp
next
  case (Cons c cs)
  obtain r h tbl frame T where c: "c = (r, h, tbl, frame, T)"
    by (cases c) auto
  from Cons show ?case unfolding c by (simp add: good_row_csv_row_of split: option.splits)
qed

text \<open>
  Claim C7. \<open>init_sequence_files\<close> creates, for every hypothesis index below \<open>num_hypo\<close>, the
  file \<open>tracking_results_H{hypo}_{seq_name}.csv\<close>: the name carries the index as its
  decimal numeral (digits only, reading them gives the index back), so two hypotheses
  have two files. The file is opened for writing with encoding UTF-8 and holds the header
  row alone; the header has 18 names of ASCII characters, and its text is the
  comma-separated line of the format. After any run of \<open>export_result\<close> calls the file
  holds the header followed by exactly the rows exported for its hypothesis, in order,
  each with 18 cells and the integer 0 in the truncated and occluded columns.
\<close>

theorem csv_export_format:
  assumes "export_results (init_sequence_files e0 seq_name) calls = Inr e'"
    and "hypo < num_hypo e0"
  shows "csv_filename hypo seq_name = ''tracking_results_H'' @ str_nat hypo @ ''_'' @ seq_name @ ''.csv'' \<and>
         val_digits (str_nat hypo) = hypo \<and> set (str_nat hypo) \<subseteq> set ''0123456789'' \<and>
         (hypo' \<noteq> hypo \<longrightarrow> csv_filename hypo' seq_name \<noteq> csv_filename hypo seq_name) \<and>
         csv_files (init_sequence_files e0 seq_name) (int hypo)
           = Some \<lparr>io_name = csv_filename hypo seq_name, io_mode = ''w'', io_newline = '''', io_encoding = ''utf-8''\<rparr> \<and>
         csv_files e' = csv_files (init_sequence_files e0 seq_name) \<and>
         files (init_sequence_files e0 seq_name) (csv_filename hypo seq_name) = Some [map CStr get_csv_header] \<and>
         csv_text get_csv_header = ''frame,track_id,object_type,truncated,occluded,alpha,bbox_left,bbox_top,bbox_right,bbox_bottom,height_3d,width_3d,length_3d,x_3d,y_3d,z_3d,rotation_y,confidence_score'' \<and>
         length get_csv_header = 18 \<and>
         list_all (list_all (\<lambda>c. of_char c < (128::nat))) get_csv_header \<and>
         files e' (csv_filename hypo seq_name)
           = Some (map CStr get_csv_header # spec_exported_rows (int hypo) calls) \<and>
         list_all (\<lambda>r. length r = 18 \<and> r ! 3 = CInt 0 \<and> r ! 4 = CInt 0) (spec_exported_rows (int hypo) calls)"
proof -
  let ?n = "csv_filename hypo seq_name"
  let ?e = "init_sequence_files e0 seq_name"
  from init_sequence_files_opened [OF assms(2), of seq_name]
  have opened: "files ?e ?n = Some [map CStr get_csv_header]"
    and writer: "csv_writers ?e (int hypo) = Some ?n"
    and handle: "csv_files ?e (int hypo)
                   = Some \<lparr>io_name = ?n, io_mode = ''w'', io_newline = '''', io_encoding = ''utf-8''\<rparr>"
    by simp_all
  have only: "\<And>h'. csv_writers ?e h' = Some ?n \<Longrightarrow> h' = int hypo"
    by (rule init_writer_of_file)
  from export_results_rows [OF assms(1) writer only opened]
  have rows: "files e' ?n = Some (map CStr get_csv_header # spec_exported_rows (int hypo) calls)"
    and kept: "csv_files e' = csv_files ?e" by simp_all
  have good: "list_all (\<lambda>r. length r = 18 \<and> r ! 3 = CInt 0 \<and> r ! 4 = CInt 0)
                (spec_exported_rows (int hypo) calls)"
    using spec_exported_rows_good [of "int hypo" calls] by (simp add: good_row_def [abs_def])
  have distinct: "hypo' \<noteq> hypo \<longrightarrow> csv_filename hypo' seq_name \<noteq> ?n"
    using csv_filename_inj [of hypo' seq_name hypo] by auto
  have len: "length get_csv_header = 18" by (simp add: get_csv_header_def)
  have name: "?n = ''tracking_results_H'' @ str_nat hypo @ ''_'' @ seq_name @ ''.csv''"
    by (simp add: csv_filename_def)
  show ?thesis
    by (intro conjI name val_digits_str_nat str_nat_digits distinct handle kept opened
          csv_header_text len header_ascii rows good)
qed

theorem csv_export_format_witness:
  "\<exists>e'. export_results (init_sequence_files (CSVExporter_init ''out'' 2 Map.empty) ''0001'')
      [([1.5, 1.8, 4.5, 10, 0, 30, 0.1, 7, 0.1, 2, 0, 0, 0, 0, 0.9], 0, det_id2str_KITTI, 0, 0.5),
       ([1.6, 1.7, 4.2, -3, 0, 12, 0.2, 8, 0.2, 2, 0, 0, 0, 0, 0.8], 1, det_id2str_KITTI, 0, 0.5),
       ([1.4, 1.6, 4.0, 5, 0, 20, 0.3, 9, 0.3, 2, 0, 0, 0, 0, 0.3], 1, det_id2str_KITTI, 1, 0.5)]
      = Inr e' \<and>
    files e' ''tracking_results_H1_0001.csv'' =
      Some [map CStr get_csv_header,
            [CInt 0, CInt 8, CStr ''Car'', CInt 0, CInt 0, CNum 0.2, CNum 0, CNum 0, CNum 0, CNum 0,
             CNum 1.6, CNum 1.7, CNum 4.2, CNum (-3), CNum 0, CNum 12, CNum 0.2, CNum 0.8]] \<and>
    ''tracking_results_H0_0001.csv'' \<noteq> ''tracking_results_H1_0001.csv'' \<and>
    val_digits ''1'' = 1 \<and>
    csv_files e' 1 = Some \<lparr>io_name = ''tracking_results_H1_0001.csv'', io_mode = ''w'', io_newline = '''',
                             io_encoding = ''utf-8''\<rparr>"
proof -
  have run: "export_results (init_sequence_files (CSVExporter_init ''out'' 2 Map.empty) ''0001'')
      [([1.5, 1.8, 4.5, 10, 0, 30, 0.1, 7, 0.1, 2, 0, 0, 0, 0, 0.9], 0, det_id2str_KITTI, 0, 0.5),
       ([1.6, 1.7, 4.2, -3, 0, 12, 0.2, 8, 0.2, 2, 0, 0, 0, 0, 0.8], 1, det_id2str_KITTI, 0, 0.5),
       ([1.4, 1.6, 4.0, 5, 0, 20, 0.3, 9, 0.3, 2, 0, 0, 0, 0, 0.3], 1, det_id2str_KITTI, 1, 0.5)]
    = Inr \<lparr>save_dir = ''out'', num_hypo = 2,
      csv_files = [0 \<mapsto> \<lparr>io_name = ''tracking_results_H0_0001.csv'', io_mode = ''w'', io_newline = '''',
                           io_encoding = ''utf-8''\<rparr>,
                   1 \<mapsto> \<lparr>io_name = ''tracking_results_H1_0001.csv'', io_mode = ''w'', io_newline = '''',
                           io_encoding = ''utf-8''\<rparr>],
      csv_writers = [0 \<mapsto> ''tracking_results_H0_0001.csv'', 1 \<mapsto> ''tracking_results_H1_0001.csv''],
      files = [''tracking_results_H0_0001.csv'' \<mapsto>
                 [map CStr get_csv_header,
                  [CInt 0, CInt 7, CStr ''Car'', CInt 0, CInt 0, CNum 0.1, CNum 0, CNum 0, CNum 0, CNum 0,
                   CNum 1.5, CNum 1.8, CNum 4.5, CNum 10, CNum 0, CNum 30, CNum 0.1, CNum 0.9]],
               ''tracking_results_H1_0001.csv'' \<mapsto>
                 [map CStr get_csv_header,
                  [CInt 0, CInt 8, CStr ''Car'', CInt 0, CInt 0, CNum 0.2, CNum 0, CNum 0, CNum 0, CNum 0,
                   CNum 1.6, CNum 1.7, CNum 4.2, CNum (-3), CNum 0, CNum 12, CNum 0.2, CNum 0.8]]]\<rparr>"
    unfolding init_two_hypo
    by (simp add: export_result_def lookup_type_Car append_row_def csv_row_of_def py_int_def)
  have hyp: "1 < num_hypo (CSVExporter_init ''out'' 2 Map.empty)"
    by (simp add: CSVExporter_init_def)
  from csv_export_format [OF run hyp, of 0] run show ?thesis
    unfolding init_two_hypo
    by (simp add: csv_filename_H0 csv_filename_H1 [simplified] str_nat.simps digit_char_def
          lookup_type_Car csv_row_of_def py_int_def)
qed

section \<open>Properties of the session frame counter\<close>

lemma track_frame_counter:
  "track_frame track rt d fi ai = Inr (res, rt') \<Longrightarrow> frame_count rt' = frame_count rt + 1"
  by (auto simp: track_frame_def Let_def split: sum.splits prod.splits)

lemma track_frames_counter:
  "track_frames track rt fs = Inr (ress, rt') \<Longrightarrow>
   frame_count rt' = frame_count rt + int (length fs) \<and> length ress = length fs"
proof (induction fs arbitrary: rt ress)
  case Nil
  then show ?case by simp
next
  case (Cons f fs)
  obtain d fi ai where f: "f = (d, fi, ai)" by (cases f) auto
  from Cons.prems f obtain res rt1 ress1 where
    one: "track_frame track rt d fi ai = Inr (res, rt1)" and
    rest: "track_frames track rt1 fs = Inr (ress1, rt')" and
    ress: "ress = res # ress1"
    by (auto split: sum.splits prod.splits)
  from track_frame_counter [OF one] Cons.IH [OF rest] ress show ?case by simp
qed

lemma RealtimeTracker_init_counter:
  "RealtimeTracker_init new_core ds dn cat ID_init = Inr rt \<Longrightarrow> frame_count rt = 0"
  by (auto simp: RealtimeTracker_init_def split: if_splits)

lemma init_KITTI_Car:
  "RealtimeTracker_init idle_core ''KITTI'' ''pointrcnn'' ''Car'' 0 =
     Inr \<lparr>dataset = ''KITTI'', det_name = ''pointrcnn'', category = ''Car'', frame_count = 0,
          tracker = \<lparr>trackers = [], core_frame_count = 0, ID_count = 0\<rparr>,
          det_id2str = det_id2str_KITTI\<rparr>"
  by (simp add: RealtimeTracker_init_def idle_core_def)

text \<open>
  Claim C8. A tracker fresh from its constructor has frame counter 0. After a run of
  \<open>track_frame\<close> calls that all returned, the counter equals the number of calls, whether
  a call passed an explicit frame index or none; every further call that returns adds
  exactly 1; and after \<open>reset\<close> the counter is 0.
\<close>

theorem session_frame_counter:
  assumes "RealtimeTracker_init new_core ds dn cat ID_init = Inr rt0"
    and "track_frames track rt0 fs = Inr (ress, rt)"
  shows "frame_count rt0 = 0 \<and> frame_count rt = int (length fs) \<and>
         (\<forall>d fi ai res rt'. track_frame track rt d fi ai = Inr (res, rt') \<longrightarrow>
                            frame_count rt' = frame_count rt + 1) \<and>
         frame_count (reset rt) = 0"
  using RealtimeTracker_init_counter [OF assms(1)] track_frames_counter [OF assms(2)]
  by (auto simp: reset_def dest: track_frame_counter)

theorem session_frame_counter_witness:
  "track_frames idle_track
     \<lparr>dataset = ''KITTI'', det_name = ''pointrcnn'', category = ''Car'', frame_count = 0,
      tracker = \<lparr>trackers = [], core_frame_count = 0, ID_count = 0\<rparr>,
      det_id2str = det_id2str_KITTI\<rparr>
     [(A2 7 [[1.5, 1.8, 4.5, 10, 0, 30, 0.1]], None, None),
      (A2 7 [[1.5, 1.8, 4.5, 10.2, 0, 29.5, 0.1]], Some 42, None),
      (A2 8 [[1.5, 1.8, 4.5, 10.4, 0, 29, 0.1, 0.9]], None, None)]
   = Inr ([[], [], []],
          \<lparr>dataset = ''KITTI'', det_name = ''pointrcnn'', category = ''Car'', frame_count = 3,
           tracker = \<lparr>trackers = [], core_frame_count = 3, ID_count = 0\<rparr>,
           det_id2str = det_id2str_KITTI\<rparr>) \<and>
   frame_count
     \<lparr>dataset = ''KITTI'', det_name = ''pointrcnn'', category = ''Car'', frame_count = 3,
      tracker = \<lparr>trackers = [], core_frame_count = 3, ID_count = 0\<rparr>,
      det_id2str = det_id2str_KITTI\<rparr> = int (length [0::nat, 1, 2]) \<and>
   frame_count (reset
     \<lparr>dataset = ''KITTI'', det_name = ''pointrcnn'', category = ''Car'', frame_count = 3,
      tracker = \<lparr>trackers = [], core_frame_count = 3, ID_count = 0\<rparr>,
      det_id2str = det_id2str_KITTI\<rparr>) = 0 \<and>
   track_frame idle_track
     \<lparr>dataset = ''KITTI'', det_name = ''pointrcnn'', category = ''Car'', frame_count = 3,
      tracker = \<lparr>trackers = [], core_frame_count = 3, ID_count = 0\<rparr>,
      det_id2str = det_id2str_KITTI\<rparr>
     (A2 7 [[1.5, 1.8, 4.5, 10.6, 0, 28.5, 0.1]]) (Some 7) None
   = Inr ([],
          \<lparr>dataset = ''KITTI'', det_name = ''pointrcnn'', category = ''Car'', frame_count = 4,
           tracker = \<lparr>trackers = [], core_frame_count = 4, ID_count = 0\<rparr>,
           det_id2str = det_id2str_KITTI\<rparr>)"
proof -
  have run: "track_frames idle_track
     \<lparr>dataset = ''KITTI'', det_name = ''pointrcnn'', category = ''Car'', frame_count = 0,
      tracker = \<lparr>trackers = [], core_frame_count = 0, ID_count = 0\<rparr>,
      det_id2str = det_id2str_KITTI\<rparr>
     [(A2 7 [[1.5, 1.8, 4.5, 10, 0, 30, 0.1]], None, None),
      (A2 7 [[1.5, 1.8, 4.5, 10.2, 0, 29.5, 0.1]], Some 42, None),
      (A2 8 [[1.5, 1.8, 4.5, 10.4, 0, 29, 0.1, 0.9]], None, None)]
   = Inr ([[], [], []],
          \<lparr>dataset = ''KITTI'', det_name = ''pointrcnn'', category = ''Car'', frame_count = 3,
           tracker = \<lparr>trackers = [], core_frame_count = 3, ID_count = 0\<rparr>,
           det_id2str = det_id2str_KITTI\<rparr>)"
    by (simp add: track_frame_def prepare_dets_def idle_track_def Let_def)
  from session_frame_counter [OF init_KITTI_Car run] run show ?thesis
    by (simp add: track_frame_def prepare_dets_def idle_track_def Let_def)
qed

section \<open>Properties of the detection parser\<close>

lemma parse_dict_2d:
  "d ''dets'' = Some (A2 cd rd) \<Longrightarrow> d ''info'' = Some (A2 ci ri) \<Longrightarrow>
   parse_dict d = Inr \<lparr>dets = A2 cd rd, info = A2 ci ri\<rparr>"
  by (simp add: parse_dict_def)

lemma ensure_2d_idem: "ensure_2d (ensure_2d a) = ensure_2d a"
  by (cases a) simp_all

lemma hcat2_A2: "hcat2 a b = A2 (ncols a + ncols b) (map2 (@) (rows_of a) (rows_of b))"
  by (simp add: hcat2_def)

lemma ensure_2d_hcat4: "ensure_2d (hcat [a, b, c, e]) = hcat [a, b, c, e]"
  by (simp add: hcat2_def)

lemma ensure_2d_cols: "ensure_2d (cols lo hi a) = cols lo hi a"
  by (simp add: cols_def)

lemma ensure_2d_ncols7: "ncols a = 7 \<Longrightarrow> ensure_2d a = a"
  by (cases a) simp_all

lemma parse_columns_2d:
  "parse_columns trk a = Inr r \<Longrightarrow> ensure_2d (dets r) = dets r \<and> ensure_2d (info r) = info r"
  by (auto simp: parse_columns_def generate_default_info_def Let_def ensure_2d_cols ensure_2d_ncols7 hcat2_def
           split: if_splits option.splits sum.splits)

lemma empty_2d: "ensure_2d (dets empty_dets_all) = dets empty_dets_all \<and> ensure_2d (info empty_dets_all) = info empty_dets_all"
  by (simp add: empty_dets_all_def)

lemma parse_ndarray_2d:
  "parse_ndarray trk a = Inr r \<Longrightarrow> ensure_2d (dets r) = dets r \<and> ensure_2d (info r) = info r"
  using parse_columns_2d empty_2d
  by (auto simp: parse_ndarray_def split: sum.splits if_splits)

lemma parse_dict_out_2d:
  "parse_dict d = Inr r \<Longrightarrow> ensure_2d (dets r) = dets r \<and> ensure_2d (info r) = info r"
  by (auto simp: parse_dict_def ensure_2d_idem split: option.splits)

lemma parse_detection_input_2d:
  "ensure_2d (dets (parse_detection_input trk p)) = dets (parse_detection_input trk p) \<and>
   ensure_2d (info (parse_detection_input trk p)) = info (parse_detection_input trk p)"
proof (cases p)
  case (PDict d)
  then show ?thesis
    using parse_dict_out_2d [of d] empty_2d
    by (cases "parse_dict d") (simp_all add: parse_detection_input_def)
next
  case (PArray a)
  then show ?thesis
    using parse_ndarray_2d [of trk a] empty_2d
    by (cases "parse_ndarray trk a") (simp_all add: parse_detection_input_def)
next
  case (POther conv)
  show ?thesis
  proof (cases conv)
    case (Inl e)
    with POther show ?thesis using empty_2d by (simp add: parse_detection_input_def)
  next
    case (Inr a)
    with POther show ?thesis
      using parse_ndarray_2d [of trk a] empty_2d
      by (cases "parse_ndarray trk a") (simp_all add: parse_detection_input_def)
  qed
qed



lemma parse_dict_as_dict:
  "parse_dict (as_dict r) = Inr \<lparr>dets = ensure_2d (dets r), info = ensure_2d (info r)\<rparr>"
  by (simp add: parse_dict_def as_dict_def)

lemma parse_PDict: "parse_detection_input trk (PDict d) = (case parse_dict d of Inl _ \<Rightarrow> empty_dets_all | Inr r \<Rightarrow> r)"
  by (simp add: parse_detection_input_def)

lemma parse_idempotent:
  "parse_detection_input trk (PDict (as_dict (parse_detection_input trk p))) = parse_detection_input trk p"
proof -
  obtain r where r: "parse_detection_input trk p = r" by simp
  have "ensure_2d (dets r) = dets r" "ensure_2d (info r) = info r"
    using parse_detection_input_2d [of trk p] r by simp_all
  then have "parse_detection_input trk (PDict (as_dict r)) = r"
    by (simp add: parse_PDict parse_dict_as_dict)
  with r show ?thesis by simp
qed



lemma generate_default_info_Some:
  "\<exists>i. generate_default_info (Some rt) N d sc = Inr i"
  by (simp add: generate_default_info_def)




















text \<open>
  Claim C9, as the code has it. For a dictionary whose \<open>dets\<close> and \<open>info\<close> are
  two-dimensional arrays, both versions of the parser return a new dictionary of exactly
  these two arrays, as they are: the payload restricted to the two keys, hence the payload
  itself when it has no other key. Parsing the parser's own output again changes nothing.
\<close>

theorem parse_canonical_unchanged:
  assumes "d ''dets'' = Some (A2 cd rd)" and "d ''info'' = Some (A2 ci ri)"
  shows "as_dict (parse_detection_input trk (PDict d)) = d |` {''dets'', ''info''} \<and>
         (dom d = {''dets'', ''info''} \<longrightarrow> as_dict (parse_detection_input trk (PDict d)) = d) \<and>
         parse_detection_input_basic trk (PDict d) = Inr (parse_detection_input trk (PDict d)) \<and>
         parse_detection_input trk (PDict (as_dict (parse_detection_input trk (PDict d))))
           = parse_detection_input trk (PDict d)"
proof -
  have p: "parse_detection_input trk (PDict d) = \<lparr>dets = A2 cd rd, info = A2 ci ri\<rparr>"
    by (simp add: parse_PDict parse_dict_2d [OF assms])
  have r: "as_dict (parse_detection_input trk (PDict d)) = d |` {''dets'', ''info''}"
    unfolding p
  proof (rule ext)
    fix k show "as_dict \<lparr>dets = A2 cd rd, info = A2 ci ri\<rparr> k = (d |` {''dets'', ''info''}) k"
      using assms by (simp add: as_dict_def restrict_map_def)
  qed
  have w: "dom d = {''dets'', ''info''} \<Longrightarrow> d |` {''dets'', ''info''} = d"
  proof (rule ext)
    fix k assume dm: "dom d = {''dets'', ''info''}"
    show "(d |` {''dets'', ''info''}) k = d k"
    proof (cases "k \<in> dom d")
      case True
      with dm show ?thesis by (simp add: restrict_map_def)
    next
      case False
      then have "d k = None" by (simp add: dom_def)
      then show ?thesis by (simp add: restrict_map_def)
    qed
  qed
  have b: "parse_detection_input_basic trk (PDict d) = Inr (parse_detection_input trk (PDict d))"
    unfolding p by (simp add: parse_detection_input_basic_def parse_dict_2d [OF assms])
  from r w b parse_idempotent [of trk "PDict d"] show ?thesis by simp
qed


theorem parse_canonical_unchanged_witness:
  "as_dict (parse_detection_input None
      (PDict [''dets'' \<mapsto> A2 7 [[1.5, 1.8, 4.5, 10, 0, 30, 0.1]],
              ''info'' \<mapsto> A2 7 [[0.1, 0, 0, 0, 0, 2, 0.9]]]))
    = [''dets'' \<mapsto> A2 7 [[1.5, 1.8, 4.5, 10, 0, 30, 0.1]],
       ''info'' \<mapsto> A2 7 [[0.1, 0, 0, 0, 0, 2, 0.9]]] \<and>
   parse_detection_input_basic None
      (PDict [''dets'' \<mapsto> A2 7 [[1.5, 1.8, 4.5, 10, 0, 30, 0.1]],
              ''info'' \<mapsto> A2 7 [[0.1, 0, 0, 0, 0, 2, 0.9]]])
    = Inr (parse_detection_input None
      (PDict [''dets'' \<mapsto> A2 7 [[1.5, 1.8, 4.5, 10, 0, 30, 0.1]],
              ''info'' \<mapsto> A2 7 [[0.1, 0, 0, 0, 0, 2, 0.9]]]))"
proof -
  let ?d = "[''dets'' \<mapsto> A2 7 [[1.5, 1.8, 4.5, 10, 0, 30, 0.1]],
             ''info'' \<mapsto> A2 7 [[0.1, 0, 0, 0, 0, 2, 0.9::real]]]"
  have h1: "?d ''dets'' = Some (A2 7 [[1.5, 1.8, 4.5, 10, 0, 30, 0.1]])" by simp
  have h2: "?d ''info'' = Some (A2 7 [[0.1, 0, 0, 0, 0, 2, 0.9]])" by simp
  have h3: "dom ?d = {''dets'', ''info''}" by auto
  from parse_canonical_unchanged [OF h1 h2, of None] h3 show ?thesis by blast
qed

text \<open>
  Claim C9 as stated fails for a canonical payload with a further key: the dictionary that
  comes back has lost it.
\<close>

theorem parse_drops_other_keys:
  "[''dets'' \<mapsto> A2 7 [[1.5, 1.8, 4.5, 10, 0, 30, 0.1]],
    ''info'' \<mapsto> A2 7 [[0.1, 0, 0, 0, 0, 2, 0.9]],
    ''frame_idx'' \<mapsto> A0 3] ''frame_idx'' = Some (A0 3) \<and>
   as_dict (parse_detection_input None
      (PDict [''dets'' \<mapsto> A2 7 [[1.5, 1.8, 4.5, 10, 0, 30, 0.1]],
              ''info'' \<mapsto> A2 7 [[0.1, 0, 0, 0, 0, 2, 0.9]],
              ''frame_idx'' \<mapsto> A0 3])) ''frame_idx'' = None \<and>
   as_dict (parse_detection_input None
      (PDict [''dets'' \<mapsto> A2 7 [[1.5, 1.8, 4.5, 10, 0, 30, 0.1]],
              ''info'' \<mapsto> A2 7 [[0.1, 0, 0, 0, 0, 2, 0.9]],
              ''frame_idx'' \<mapsto> A0 3]))
     \<noteq> [''dets'' \<mapsto> A2 7 [[1.5, 1.8, 4.5, 10, 0, 30, 0.1]],
        ''info'' \<mapsto> A2 7 [[0.1, 0, 0, 0, 0, 2, 0.9]],
        ''frame_idx'' \<mapsto> A0 3] \<and>
   parse_detection_input_basic None
      (PDict [''dets'' \<mapsto> A2 7 [[1.5, 1.8, 4.5, 10, 0, 30, 0.1]],
              ''info'' \<mapsto> A2 7 [[0.1, 0, 0, 0, 0, 2, 0.9]],
              ''frame_idx'' \<mapsto> A0 3])
     = Inr \<lparr>dets = A2 7 [[1.5, 1.8, 4.5, 10, 0, 30, 0.1]], info = A2 7 [[0.1, 0, 0, 0, 0, 2, 0.9]]\<rparr>"
proof -
  let ?d = "[''dets'' \<mapsto> A2 7 [[1.5, 1.8, 4.5, 10, 0, 30, 0.1]],
             ''info'' \<mapsto> A2 7 [[0.1, 0, 0, 0, 0, 2, 0.9::real]],
             ''frame_idx'' \<mapsto> A0 3]"
  have h1: "?d ''dets'' = Some (A2 7 [[1.5, 1.8, 4.5, 10, 0, 30, 0.1]])" by simp
  have h2: "?d ''info'' = Some (A2 7 [[0.1, 0, 0, 0, 0, 2, 0.9]])" by simp
  have p: "parse_detection_input None (PDict ?d)
             = \<lparr>dets = A2 7 [[1.5, 1.8, 4.5, 10, 0, 30, 0.1]], info = A2 7 [[0.1, 0, 0, 0, 0, 2, 0.9]]\<rparr>"
    unfolding parse_PDict parse_dict_2d [OF h1 h2] by simp
  have b: "parse_detection_input_basic None (PDict ?d)
             = Inr \<lparr>dets = A2 7 [[1.5, 1.8, 4.5, 10, 0, 30, 0.1]], info = A2 7 [[0.1, 0, 0, 0, 0, 2, 0.9]]\<rparr>"
    by (simp only: parse_detection_input_basic_def payload.case parse_dict_2d [OF h1 h2] sum.case)
  have k: "?d ''frame_idx'' = Some (A0 3)" by simp
  have n: "as_dict (parse_detection_input None (PDict ?d)) ''frame_idx'' = None"
    unfolding p by (simp add: as_dict_def)
  from k n have "as_dict (parse_detection_input None (PDict ?d)) ''frame_idx'' \<noteq> ?d ''frame_idx''"
    by (simp only:) simp
  then have ne: "as_dict (parse_detection_input None (PDict ?d)) \<noteq> ?d"
    by (rule contrapos_nn) (simp only:)
  from k n ne b show ?thesis by (intro conjI)
qed








section \<open>Properties of the live component\<close>

lemma limit_output_take: "limit_output rs = take 1 rs"
  by (cases rs) (simp_all add: limit_output_def Let_def)

lemma length_limit_output: "length (limit_output rs) \<le> 1"
  by (simp add: limit_output_take)

lemma process_frame_tracks:
  "\<exists>rows. tracks_written (snd (process_frame nc c t ts data idx)) = Some rows \<and> length rows \<le> 1"
  by (simp add: process_frame_def Let_def length_limit_output)

lemma Core_cases:
  "Core nc c f = (c, RateLimited) \<or> Core nc c f = (c, CircuitOpen) \<or>
   Core nc c f = (c\<lparr>error_count := 0\<rparr>, NoData) \<or>
   (\<exists>ts data. Core nc c f = process_frame nc (c\<lparr>error_count := 0\<rparr>) (now f) ts data (frame_idx_in f))"
  by (auto simp: Core_def Let_def split: option.splits prod.splits)

lemma Core_tracks:
  "case tracks_written (snd (Core nc c f)) of None \<Rightarrow> True | Some rows \<Rightarrow> length rows \<le> 1"
proof -
  from Core_cases [of nc c f] consider
      "snd (Core nc c f) = RateLimited" | "snd (Core nc c f) = CircuitOpen"
    | "snd (Core nc c f) = NoData"
    | ts data where "Core nc c f = process_frame nc (c\<lparr>error_count := 0\<rparr>) (now f) ts data (frame_idx_in f)"
    by (elim disjE exE) simp_all
  then show ?thesis
  proof cases
    case 4
    from process_frame_tracks [of nc "c\<lparr>error_count := 0\<rparr>" "now f" ts data "frame_idx_in f"]
    obtain rows where "tracks_written (snd (Core nc c f)) = Some rows" and "length rows \<le> 1"
      unfolding 4 by (elim exE conjE)
    then show ?thesis by simp
  qed simp_all
qed

lemma process_frame_processed:
  "snd (process_frame nc c t ts data idx) = Processed out \<Longrightarrow>
   tracks out = take 1 (case tracking_step (dets (parse_detection_input (current_tracker c) data))
                               (info (parse_detection_input (current_tracker c) data))
                               (case idx of Some i \<Rightarrow> i | None \<Rightarrow> c_frame_count c) of
                          Inl _ \<Rightarrow> [] | Inr r \<Rightarrow> r)"
  by (auto simp: process_frame_def Let_def limit_output_take split: if_splits)

lemma periodic_reset_config:
  "min_process_interval (periodic_reset nc c) = min_process_interval c \<and>
   max_errors (periodic_reset nc c) = max_errors c \<and>
   error_count (periodic_reset nc c) = error_count c \<and>
   last_process_time (periodic_reset nc c) = last_process_time c \<and>
   c_frame_count (periodic_reset nc c) = c_frame_count c \<and>
   verbose (periodic_reset nc c) = verbose c \<and>
   properties (periodic_reset nc c) = properties c"
  by (simp add: periodic_reset_def install_tracker_def Let_def split: sum.splits)

lemma process_frame_config:
  "min_process_interval (fst (process_frame nc c t ts data idx)) = min_process_interval c \<and>
   max_errors (fst (process_frame nc c t ts data idx)) = max_errors c \<and>
   verbose (fst (process_frame nc c t ts data idx)) = verbose c \<and>
   properties (fst (process_frame nc c t ts data idx)) = properties c"
  by (simp add: process_frame_def Let_def periodic_reset_config)

lemma process_frame_outcome:
  "(\<exists>out. snd (process_frame nc c t ts data idx) = Failed out \<and>
          fst (process_frame nc c t ts data idx) = c\<lparr>error_count := error_count c + 1\<rparr>) \<or>
   (\<exists>out. snd (process_frame nc c t ts data idx) = Processed out \<and>
          fst (process_frame nc c t ts data idx)
            = periodic_reset nc (c\<lparr>last_process_time := t, c_frame_count := c_frame_count c + 1\<rparr>))"
  by (simp add: process_frame_def Let_def)

lemma Core_config:
  "min_process_interval (fst (Core nc c f)) = min_process_interval c \<and>
   max_errors (fst (Core nc c f)) = max_errors c \<and>
   verbose (fst (Core nc c f)) = verbose c \<and>
   properties (fst (Core nc c f)) = properties c"
  using Core_cases [of nc c f] process_frame_config [of nc "c\<lparr>error_count := 0\<rparr>" "now f" _ _ "frame_idx_in f"]
  by (elim disjE exE) simp_all

lemma Core_rate_limited:
  "now f - last_process_time c < min_process_interval c \<Longrightarrow> Core nc c f = (c, RateLimited)"
  by (simp add: Core_def)

lemma Core_processed:
  assumes "snd (Core nc c f) = Processed out"
  shows "fst (Core nc c f)
           = periodic_reset nc (c\<lparr>error_count := 0, last_process_time := now f,
                                    c_frame_count := c_frame_count c + 1\<rparr>) \<and>
         \<not> now f - last_process_time c < min_process_interval c \<and>
         \<not> max_errors c \<le> error_count c"
proof -
  from Core_cases [of nc c f] assms obtain ts data where
    e: "Core nc c f = process_frame nc (c\<lparr>error_count := 0\<rparr>) (now f) ts data (frame_idx_in f)"
    by (elim disjE exE) simp_all
  from process_frame_outcome [of nc "c\<lparr>error_count := 0\<rparr>" "now f" ts data "frame_idx_in f"] assms
  have "fst (Core nc c f)
           = periodic_reset nc (c\<lparr>error_count := 0, last_process_time := now f,
                                    c_frame_count := c_frame_count c + 1\<rparr>)"
    unfolding e by (elim disjE exE conjE) simp_all
  moreover have "\<not> now f - last_process_time c < min_process_interval c \<and> \<not> max_errors c \<le> error_count c"
    using assms by (auto simp: Core_def split: if_splits)
  ultimately show ?thesis by simp
qed

lemma Core_processed_time:
  "snd (Core nc c f) = Processed out \<Longrightarrow>
   last_process_time (fst (Core nc c f)) = now f \<and>
   c_frame_count (fst (Core nc c f)) = c_frame_count c + 1 \<and>
   error_count (fst (Core nc c f)) = 0"
  using Core_processed [of nc c f out] by (simp add: periodic_reset_config)

lemma Core_run_Cons:
  "fst (Core_run nc c (f # fs)) = fst (Core_run nc (fst (Core nc c f)) fs) \<and>
   snd (Core_run nc c (f # fs)) = snd (Core nc c f) # snd (Core_run nc (fst (Core nc c f)) fs)"
  by (simp split: prod.splits)

lemma Core_run_append:
  "fst (Core_run nc c (xs @ ys)) = fst (Core_run nc (fst (Core_run nc c xs)) ys) \<and>
   snd (Core_run nc c (xs @ ys)) = snd (Core_run nc c xs) @ snd (Core_run nc (fst (Core_run nc c xs)) ys)"
proof (induction xs arbitrary: c)
  case Nil
  show ?case by simp
next
  case (Cons x xs)
  show ?case
    using Cons [of "fst (Core nc c x)"] by (simp add: Core_run_Cons del: Core_run.simps)
qed

lemma length_Core_run: "length (snd (Core_run nc c fs)) = length fs"
proof (induction fs arbitrary: c)
  case Nil
  show ?case by simp
next
  case (Cons f fs)
  show ?case using Cons [of "fst (Core nc c f)"] by (simp add: Core_run_Cons del: Core_run.simps)
qed

lemma Core_run_snoc:
  "fst (Core_run nc c (xs @ [f])) = fst (Core nc (fst (Core_run nc c xs)) f) \<and>
   snd (Core_run nc c (xs @ [f])) = snd (Core_run nc c xs) @ [snd (Core nc (fst (Core_run nc c xs)) f)]"
  by (simp add: Core_run_append Core_run_Cons del: Core_run.simps(2))

lemma run_take_Suc:
  assumes "i < length fs"
  shows "fst (Core_run nc c (take (Suc i) fs)) = fst (Core nc (fst (Core_run nc c (take i fs))) (fs ! i))"
  by (simp only: take_Suc_conv_app_nth [OF assms] Core_run_snoc)

lemma run_nth:
  assumes "i < length fs"
  shows "snd (Core_run nc c fs) ! i = snd (Core nc (fst (Core_run nc c (take i fs))) (fs ! i))"
proof -
  have l: "length (snd (Core_run nc c (take i fs))) = i"
    using assms by (simp add: length_Core_run)
  have "fs = take i fs @ fs ! i # drop (Suc i) fs"
    using assms by (simp add: id_take_nth_drop)
  then have "snd (Core_run nc c fs) ! i
               = snd (Core_run nc c (take i fs @ fs ! i # drop (Suc i) fs)) ! i" by simp
  also have "\<dots> = (snd (Core_run nc c (take i fs))
                     @ snd (Core nc (fst (Core_run nc c (take i fs))) (fs ! i))
                       # snd (Core_run nc (fst (Core nc (fst (Core_run nc c (take i fs))) (fs ! i)))
                               (drop (Suc i) fs))) ! i"
    by (simp only: Core_run_append Core_run_Cons)
  also have "\<dots> = snd (Core nc (fst (Core_run nc c (take i fs))) (fs ! i))"
    using l by (simp add: nth_append)
  finally show ?thesis .
qed

lemma run_interval:
  "k \<le> length fs \<Longrightarrow> min_process_interval (fst (Core_run nc c (take k fs))) = min_process_interval c"
proof (induction k)
  case 0
  then show ?case by simp
next
  case (Suc k)
  then have "k < length fs" by simp
  from run_take_Suc [OF this] Suc show ?case by (simp add: Core_config)
qed

lemma born_default_props:
  "born default_props =
     \<lparr>c_tracker = Some 0,
      objects = [\<lparr>dataset = ''KITTI'', det_name = ''pointrcnn'', category = ''Car'', frame_count = 0,
                  tracker = \<lparr>trackers = [], core_frame_count = 0, ID_count = 0\<rparr>,
                  det_id2str = det_id2str_KITTI\<rparr>],
      c_frame_count = 0, last_process_time = 0, min_process_interval = 1 / 50,
      error_count = 0, max_errors = 10, max_output_tracks = 5, verbose = False,
      properties = default_props\<rparr>"
  by (simp add: born_def Birth_def rtmaps_python_init_def default_props_def RealtimeTracker_init_def
        install_tracker_def idle_core_def Let_def)

lemma replicate_4: "replicate 4 x = [x, x, x, x]"
  by (simp add: numeral_eq_Suc)

lemmas frame_eval = replicate_4
  Core_def process_frame_def parse_detection_input_def parse_ndarray_def parse_columns_def
  generate_default_info_def parse_dict_def tracking_step_def simple_tracking_fallback_def
  limit_output_def periodic_reset_def current_tracker_def get_active_tracks_def get_type_id_def
  det_id2str_KITTI_def cols_def hcat2_def np_full_def car_frame_def scalar_frame_def
  empty_dets_all_def Let_def enumerate_eq_zip

lemma born_verbose_props:
  "born (default_props\<lparr>p_verbose := True\<rparr>) =
     \<lparr>c_tracker = Some 0,
      objects = [\<lparr>dataset = ''KITTI'', det_name = ''pointrcnn'', category = ''Car'', frame_count = 0,
                  tracker = \<lparr>trackers = [], core_frame_count = 0, ID_count = 0\<rparr>,
                  det_id2str = det_id2str_KITTI\<rparr>],
      c_frame_count = 0, last_process_time = 0, min_process_interval = 1 / 50,
      error_count = 0, max_errors = 10, max_output_tracks = 5, verbose = True,
      properties = default_props\<lparr>p_verbose := True\<rparr>\<rparr>"
  by (simp add: born_def Birth_def rtmaps_python_init_def default_props_def RealtimeTracker_init_def
        install_tracker_def idle_core_def Let_def)

lemma Birth_verbose_props:
  "Birth idle_core (rtmaps_python_init (default_props\<lparr>p_verbose := True\<rparr>))
     = Inr (born (default_props\<lparr>p_verbose := True\<rparr>))"
  by (simp add: born_def Birth_def rtmaps_python_init_def default_props_def RealtimeTracker_init_def
        install_tracker_def idle_core_def Let_def)

lemma car_step:
  assumes "t + 1 / 50 \<le> t'" and "(k + 1) mod 100 \<noteq> 0"
  shows "Core idle_core ((born default_props)\<lparr>c_frame_count := k, last_process_time := t\<rparr>) (car_frame t')
           = ((born default_props)\<lparr>c_frame_count := k + 1, last_process_time := t'\<rparr>,
              Processed \<lparr>out_ts = 0,
                         tracks = [[1.5, 1.8, 4.5, 10, 0, 30, 0.1, real_of_int (k * 100), 0.1, 2, 0, 0, 0, 0, 1]],
                         num_tracks = 1, track_ids = []\<rparr>)"
  unfolding born_default_props using assms by (simp add: frame_eval)

lemma born_unchanged:
  "(born default_props)\<lparr>c_frame_count := 0, last_process_time := 0\<rparr> = born default_props"
  unfolding born_default_props by simp

lemma car_run:
  "n \<le> 99 \<Longrightarrow>
   fst (Core_run idle_core (born default_props) (map (\<lambda>k. car_frame (real k)) [1..<Suc n]))
     = (born default_props)\<lparr>c_frame_count := int n, last_process_time := real n\<rparr>"
proof (induction n)
  case 0
  show ?case by (simp add: born_unchanged)
next
  case (Suc n)
  then have n: "n \<le> 99" and m: "(int n + 1) mod 100 \<noteq> 0" by simp_all
  have t: "real n + 1 / 50 \<le> real (Suc n)" by simp
  have l: "[1..<Suc (Suc n)] = [1..<Suc n] @ [Suc n]" by simp
  show ?case
    unfolding l map_append
    using Suc.IH [OF n] car_step [OF t m]
    by (simp add: Core_run_snoc del: Core_run.simps(2) upt_Suc)
qed

lemma run_99:
  "fst (Core_run idle_core (born default_props) (map (\<lambda>k. car_frame (real k)) [1..<100]))
     = (born default_props)\<lparr>c_frame_count := 99, last_process_time := 99\<rparr>"
  using car_run [of 99] by simp

lemma step_100:
  "Core idle_core ((born default_props)\<lparr>c_frame_count := 99, last_process_time := 99\<rparr>) (car_frame 100)
     = (\<lparr>c_tracker = Some 1,
         objects = [\<lparr>dataset = ''KITTI'', det_name = ''pointrcnn'', category = ''Car'', frame_count = 0,
                     tracker = \<lparr>trackers = [], core_frame_count = 0, ID_count = 0\<rparr>,
                     det_id2str = det_id2str_KITTI\<rparr>,
                    \<lparr>dataset = ''KITTI'', det_name = ''pointrcnn'', category = ''Car'', frame_count = 0,
                     tracker = \<lparr>trackers = [], core_frame_count = 0, ID_count = 0\<rparr>,
                     det_id2str = det_id2str_KITTI\<rparr>],
         c_frame_count = 100, last_process_time = 100, min_process_interval = 1 / 50,
         error_count = 0, max_errors = 10, max_output_tracks = 5, verbose = False,
         properties = default_props\<rparr>,
        Processed \<lparr>out_ts = 0,
                   tracks = [[1.5, 1.8, 4.5, 10, 0, 30, 0.1, 9900, 0.1, 2, 0, 0, 0, 0, 1]],
                   num_tracks = 1, track_ids = []\<rparr>)"
  unfolding born_default_props
  by (simp add: frame_eval RealtimeTracker_init_def install_tracker_def default_props_def idle_core_def)

lemma run_100:
  "fst (Core_run idle_core (born default_props) (map (\<lambda>k. car_frame (real k)) [1..<101]))
     = \<lparr>c_tracker = Some 1,
         objects = [\<lparr>dataset = ''KITTI'', det_name = ''pointrcnn'', category = ''Car'', frame_count = 0,
                     tracker = \<lparr>trackers = [], core_frame_count = 0, ID_count = 0\<rparr>,
                     det_id2str = det_id2str_KITTI\<rparr>,
                    \<lparr>dataset = ''KITTI'', det_name = ''pointrcnn'', category = ''Car'', frame_count = 0,
                     tracker = \<lparr>trackers = [], core_frame_count = 0, ID_count = 0\<rparr>,
                     det_id2str = det_id2str_KITTI\<rparr>],
         c_frame_count = 100, last_process_time = 100, min_process_interval = 1 / 50,
         error_count = 0, max_errors = 10, max_output_tracks = 5, verbose = False,
         properties = default_props\<rparr>"
proof -
  have l: "[1..<101] = [1..<100] @ [100::nat]"
    using upt_Suc_append [of 1 100] by simp
  show ?thesis
    unfolding l map_append using run_99 step_100
    by (simp add: Core_run_snoc del: Core_run.simps(2))
qed

lemma process_frame_fault:
  assumes "tracking_step (dets (parse_detection_input (current_tracker c) data))
             (info (parse_detection_input (current_tracker c) data))
             (case idx of Some i \<Rightarrow> i | None \<Rightarrow> c_frame_count c) = Inl err"
  shows "\<exists>out. (snd (process_frame nc c t ts data idx) = Processed out \<or>
               snd (process_frame nc c t ts data idx) = Failed out) \<and>
              tracks out = [] \<and> num_tracks out = 0"
  using assms by (simp add: process_frame_def Let_def limit_output_take)

lemma track_frame_columns:
  assumes "shape0 d = Inr n" and "0 < n" and "shape1 d = Inr k" and "k \<noteq> 7" and "k \<noteq> 8"
  shows "track_frame track rt d fidx ai = Inl ValueError"
  using assms by (simp add: track_frame_def prepare_dets_def Let_def)

lemma track_frame_core_fault:
  assumes "prepare_dets rt d ai = Inr da"
    and "track (tracker rt) da (case fidx of None \<Rightarrow> frame_count rt | Some i \<Rightarrow> i) = Inl err"
  shows "track_frame track rt d fidx ai = Inl err"
  using assms by (simp add: track_frame_def Let_def)

lemma error_count_at_most_one:
  assumes "error_count c \<le> 1"
  shows "error_count (fst (Core nc c f)) \<le> 1"
proof -
  from Core_cases [of nc c f] consider
      "fst (Core nc c f) = c" | "fst (Core nc c f) = c\<lparr>error_count := 0\<rparr>"
    | ts data where "Core nc c f = process_frame nc (c\<lparr>error_count := 0\<rparr>) (now f) ts data (frame_idx_in f)"
    by (elim disjE exE) simp_all
  then show ?thesis
  proof cases
    case 1
    with assms show ?thesis by simp
  next
    case 2
    then show ?thesis by simp
  next
    case 3
    from process_frame_outcome [of nc "c\<lparr>error_count := 0\<rparr>" "now f" ts data "frame_idx_in f"]
    show ?thesis unfolding 3 by (elim disjE exE conjE) (simp_all add: periodic_reset_config)
  qed
qed

lemma process_frame_not_skipped:
  "snd (process_frame nc c t ts data idx) \<noteq> CircuitOpen"
  using process_frame_outcome [of nc c t ts data idx] by (elim disjE exE conjE) simp_all

lemma circuit_stays_closed:
  assumes "error_count c \<le> 1" and "2 \<le> max_errors c"
  shows "snd (Core nc c f) \<noteq> CircuitOpen"
proof -
  from assms have n: "\<not> max_errors c \<le> error_count c" by simp
  show ?thesis
    using n process_frame_not_skipped
    by (simp add: Core_def Let_def split: option.splits prod.splits)
qed

text \<open>
  Claim C10. Whatever a call of \<open>Core\<close> writes to the tracks output has at most one row:
  the cap keeps the first result of the tracking step and drops the rest (the two later
  checks never fire), and the outer handler writes no row at all.
\<close>

theorem tracks_output_at_most_one:
  "(case tracks_written (snd (Core nc c f)) of None \<Rightarrow> True | Some rows \<Rightarrow> length rows \<le> 1) \<and>
   limit_output rs = take 1 rs \<and>
   (\<forall>out. snd (process_frame nc c t ts data idx) = Processed out \<longrightarrow>
      tracks out = take 1 (case tracking_step (dets (parse_detection_input (current_tracker c) data))
                               (info (parse_detection_input (current_tracker c) data))
                               (case idx of Some i \<Rightarrow> i | None \<Rightarrow> c_frame_count c) of
                             Inl _ \<Rightarrow> [] | Inr r \<Rightarrow> r))"
  using Core_tracks [of nc c f] limit_output_take [of rs] process_frame_processed [of nc c t ts data idx]
  by simp

theorem tracks_output_at_most_one_witness:
  "snd (process_frame idle_core (born default_props) 1000 0
          (PArray (A2 7 [[1.5, 1.8, 4.5, 10, 0, 30, 0.1], [1.6, 1.9, 4.8, 15, 0, 35, 0.2]])) None)
     = Processed \<lparr>out_ts = 0,
                  tracks = [[1.5, 1.8, 4.5, 10, 0, 30, 0.1, 0, 0.1, 2, 0, 0, 0, 0, 1]],
                  num_tracks = 1, track_ids = []\<rparr> \<and>
   tracking_step
      (dets (parse_detection_input (current_tracker (born default_props))
               (PArray (A2 7 [[1.5, 1.8, 4.5, 10, 0, 30, 0.1], [1.6, 1.9, 4.8, 15, 0, 35, 0.2]]))))
      (info (parse_detection_input (current_tracker (born default_props))
               (PArray (A2 7 [[1.5, 1.8, 4.5, 10, 0, 30, 0.1], [1.6, 1.9, 4.8, 15, 0, 35, 0.2]]))))
      (c_frame_count (born default_props))
     = Inr [[1.5, 1.8, 4.5, 10, 0, 30, 0.1, 0, 0.1, 2, 0, 0, 0, 0, 1],
            [1.6, 1.9, 4.8, 15, 0, 35, 0.2, 1, 0.2, 2, 0, 0, 0, 0, 1]] \<and>
   tracks \<lparr>out_ts = 0,
           tracks = [[1.5, 1.8, 4.5, 10, 0, 30, 0.1, 0, 0.1, 2, 0, 0, 0, 0, 1]],
           num_tracks = 1, track_ids = []\<rparr>
     = take 1 [[1.5, 1.8, 4.5, 10, 0, 30, 0.1, 0, 0.1, 2, 0, 0, 0, 0, 1],
               [1.6, 1.9, 4.8, 15, 0, 35, 0.2, 1, 0.2, 2, 0, 0, 0, 0, 1]]"
proof -
  let ?data = "PArray (A2 7 [[1.5, 1.8, 4.5, 10, 0, 30, 0.1], [1.6, 1.9, 4.8, 15, 0, 35, 0.2]])"
  let ?out = "\<lparr>out_ts = 0,
                tracks = [[1.5, 1.8, 4.5, 10, 0, 30, 0.1, 0, 0.1, 2, 0, 0, 0, 0, 1::real]],
                num_tracks = 1, track_ids = []\<rparr>"
  have p: "snd (process_frame idle_core (born default_props) 1000 0 ?data None) = Processed ?out"
    unfolding born_default_props by (simp add: frame_eval)
  have t: "tracking_step
      (dets (parse_detection_input (current_tracker (born default_props)) ?data))
      (info (parse_detection_input (current_tracker (born default_props)) ?data))
      (c_frame_count (born default_props))
     = Inr [[1.5, 1.8, 4.5, 10, 0, 30, 0.1, 0, 0.1, 2, 0, 0, 0, 0, 1],
            [1.6, 1.9, 4.8, 15, 0, 35, 0.2, 1, 0.2, 2, 0, 0, 0, 0, 1]]"
    unfolding born_default_props by (simp add: frame_eval)
  from tracks_output_at_most_one [of idle_core "born default_props" "car_frame 0" "[]"
          1000 0 ?data None]
  have "\<forall>out. snd (process_frame idle_core (born default_props) 1000 0 ?data None) = Processed out \<longrightarrow>
      tracks out = take 1 (case tracking_step
                               (dets (parse_detection_input (current_tracker (born default_props)) ?data))
                               (info (parse_detection_input (current_tracker (born default_props)) ?data))
                               (case None of Some i \<Rightarrow> i | None \<Rightarrow> c_frame_count (born default_props)) of
                             Inl _ \<Rightarrow> [] | Inr r \<Rightarrow> r)"
    by (elim conjE)
  with p have "tracks ?out = take 1 (case tracking_step
                               (dets (parse_detection_input (current_tracker (born default_props)) ?data))
                               (info (parse_detection_input (current_tracker (born default_props)) ?data))
                               (c_frame_count (born default_props)) of
                             Inl _ \<Rightarrow> [] | Inr r \<Rightarrow> r)"
    by simp
  with p t show ?thesis by simp
qed

lemma Core_last_time_mono:
  assumes "0 < min_process_interval c"
  shows "last_process_time c \<le> last_process_time (fst (Core nc c f))"
proof (cases "now f - last_process_time c < min_process_interval c")
  case True
  then show ?thesis by (simp add: Core_rate_limited)
next
  case False
  with assms have later: "last_process_time c \<le> now f" by simp
  from Core_cases [of nc c f] consider
      "fst (Core nc c f) = c" | "fst (Core nc c f) = c\<lparr>error_count := 0\<rparr>"
    | ts data where "Core nc c f = process_frame nc (c\<lparr>error_count := 0\<rparr>) (now f) ts data (frame_idx_in f)"
    by (elim disjE exE) simp_all
  then show ?thesis
  proof cases
    case 1
    then show ?thesis by simp
  next
    case 2
    then show ?thesis by simp
  next
    case 3
    from process_frame_outcome [of nc "c\<lparr>error_count := 0\<rparr>" "now f" ts data "frame_idx_in f"] later
    show ?thesis unfolding 3 by (elim disjE exE conjE) (simp_all add: periodic_reset_config)
  qed
qed

lemma init_interval_pos: "0 < min_process_interval (rtmaps_python_init p)"
  by (simp add: rtmaps_python_init_def)

lemma Birth_interval_pos:
  assumes "Birth nc c0 = Inr c1"
  shows "0 < min_process_interval c1"
proof -
  from assms obtain rt where
    "c1 = (install_tracker
             (c0\<lparr>verbose := p_verbose (properties c0), max_errors := p_max_errors (properties c0),
                  max_output_tracks := p_max_output_tracks (properties c0),
                  min_process_interval :=
                    (if p_max_fps (properties c0) > 0 then 1 / p_max_fps (properties c0) else 0.01)\<rparr>)
             rt)\<lparr>c_frame_count := 0\<rparr>"
    by (auto simp: Birth_def Let_def split: sum.splits)
  then show ?thesis by (simp add: install_tracker_def)
qed

text \<open>
  Claim C5, as the code has it. The limiter compares the clock with the time of the last
  frame that was processed. The minimum interval is positive from the constructor on and
  after every \<open>Birth\<close>, and \<open>Core\<close> never changes it. With a positive minimum interval, when
  a frame is processed, every later frame whose clock reading is less than the minimum
  interval after that frame's is dropped at the rate limit, whatever the clock read in
  between: nothing is parsed or tracked, nothing is written, and the state stays as it
  was. So of two frames closer than the minimum interval at most one is processed.
\<close>

theorem rate_limiter_at_most_one:
  assumes pos: "0 < min_process_interval c" and ij: "i < j" and j: "j < length fs"
    and near: "now (fs ! j) - now (fs ! i) < min_process_interval c"
    and proc: "snd (Core_run nc c fs) ! i = Processed out"
  shows "snd (Core_run nc c fs) ! j = RateLimited \<and>
         fst (Core_run nc c (take (Suc j) fs)) = fst (Core_run nc c (take j fs)) \<and>
         0 < min_process_interval (rtmaps_python_init p) \<and>
         (Birth nc c0 = Inr c1 \<longrightarrow> 0 < min_process_interval c1) \<and>
         min_process_interval (fst (Core_run nc c fs)) = min_process_interval c"
proof -
  define st where "st k = fst (Core_run nc c (take k fs))" for k
  from ij j have i: "i < length fs" by simp
  have step: "st (Suc k) = fst (Core nc (st k) (fs ! k))" if "k < length fs" for k
    unfolding st_def by (rule run_take_Suc [OF that])
  have outc: "snd (Core_run nc c fs) ! k = snd (Core nc (st k) (fs ! k))" if "k < length fs" for k
    unfolding st_def by (rule run_nth [OF that])
  have intv: "min_process_interval (st k) = min_process_interval c" if "k \<le> length fs" for k
    unfolding st_def by (rule run_interval [OF that])
  have oi: "snd (Core nc (st i) (fs ! i)) = Processed out"
    using outc [OF i] proc by simp
  have last_i: "last_process_time (st (Suc i)) = now (fs ! i)"
    using Core_processed_time [OF oi] step [OF i] by simp
  have inv: "i < k \<Longrightarrow> k \<le> j \<Longrightarrow> now (fs ! i) \<le> last_process_time (st k)" for k
  proof (induction k)
    case 0
    then show ?case by simp
  next
    case (Suc k)
    show ?case
    proof (cases "k = i")
      case True
      with last_i show ?thesis by simp
    next
      case False
      with Suc.prems have ik: "i < k" and kj: "k \<le> j" and kl: "k < length fs" using j by simp_all
      from Suc.IH [OF ik kj] have l: "now (fs ! i) \<le> last_process_time (st k)" .
      from kl have "k \<le> length fs" by simp
      from intv [OF this] pos have "0 < min_process_interval (st k)" by simp
      from Core_last_time_mono [OF this, of nc "fs ! k"] step [OF kl] l show ?thesis by simp
    qed
  qed
  from inv [OF ij] have lj: "now (fs ! i) \<le> last_process_time (st j)" by simp
  from j have "j \<le> length fs" by simp
  from intv [OF this] near lj
  have "now (fs ! j) - last_process_time (st j) < min_process_interval (st j)" by simp
  then have cj: "Core nc (st j) (fs ! j) = (st j, RateLimited)" by (rule Core_rate_limited)
  from outc [OF j] cj have a: "snd (Core_run nc c fs) ! j = RateLimited" by simp
  from step [OF j] cj have "st (Suc j) = st j" by simp
  then have b: "fst (Core_run nc c (take (Suc j) fs)) = fst (Core_run nc c (take j fs))"
    unfolding st_def .
  have d: "Birth nc c0 = Inr c1 \<longrightarrow> 0 < min_process_interval c1"
    by (rule impI) (rule Birth_interval_pos)
  from run_interval [of "length fs" fs nc c]
  have e: "min_process_interval (fst (Core_run nc c fs)) = min_process_interval c" by simp
  show ?thesis by (intro conjI a b init_interval_pos d e)
qed

theorem rate_limiter_at_most_one_witness:
  "snd (Core_run idle_core (born default_props)
          [car_frame 1000, car_frame 999, car_frame 1000.005]) ! 2 = RateLimited \<and>
   fst (Core_run idle_core (born default_props)
          (take 3 [car_frame 1000, car_frame 999, car_frame 1000.005]))
     = fst (Core_run idle_core (born default_props)
          (take 2 [car_frame 1000, car_frame 999, car_frame 1000.005])) \<and>
   0 < min_process_interval (born default_props)"
proof -
  let ?fs = "[car_frame 1000, car_frame 999, car_frame 1000.005]"
  have h1: "0 < min_process_interval (born default_props)"
    unfolding born_default_props by simp
  have h2: "(0::nat) < 2" by simp
  have h3: "2 < length ?fs" by simp
  have h4: "now (?fs ! 2) - now (?fs ! 0) < min_process_interval (born default_props)"
    unfolding born_default_props by (simp add: car_frame_def)
  have h5: "snd (Core_run idle_core (born default_props) ?fs) ! 0
              = Processed \<lparr>out_ts = 0,
                   tracks = [[1.5, 1.8, 4.5, 10, 0, 30, 0.1, 0, 0.1, 2, 0, 0, 0, 0, 1]],
                   num_tracks = 1, track_ids = []\<rparr>"
    unfolding born_default_props by (simp add: frame_eval)
  from rate_limiter_at_most_one [OF h1 h2 h3 h4 h5] h1 show ?thesis
    by (simp add: numeral_3_eq_3 numeral_2_eq_2)
qed

text \<open>
  Claim C5 as stated fails: of three frames 5 ms apart under a minimum interval of 20 ms
  the first is processed and both the second and the third are dropped, so the second and
  third are two frames closer than the interval of which none is processed.
\<close>

theorem rate_limiter_counterexample:
  "snd (Core_run idle_core (born default_props) [car_frame 1000, car_frame 1000.005, car_frame 1000.01])
     = [Processed \<lparr>out_ts = 0,
                   tracks = [[1.5, 1.8, 4.5, 10, 0, 30, 0.1, 0, 0.1, 2, 0, 0, 0, 0, 1]],
                   num_tracks = 1, track_ids = []\<rparr>,
        RateLimited, RateLimited] \<and>
   now (car_frame 1000.01) - now (car_frame 1000.005) < min_process_interval (born default_props)"
  unfolding born_default_props by (simp add: frame_eval)

text \<open>
  Claim C1 on the code: \<open>Core\<close> sets the error counter to 0 before it processes a frame,
  so consecutive faults never add up. With \<open>max_errors\<close> 10 and \<open>verbose\<close> set, ten frames in
  a row whose payload makes \<open>Core\<close> raise (each is counted as error number 1) leave the
  counter at 1, and the eleventh frame is processed again instead of being skipped. With
  \<open>verbose\<close> off the same payload raises inside the tracking step, which is answered with
  an empty result and not counted at all.
\<close>

theorem circuit_breaker_does_not_open:
  "Birth idle_core (rtmaps_python_init (default_props\<lparr>p_verbose := True\<rparr>))
     = Inr (born (default_props\<lparr>p_verbose := True\<rparr>)) \<and>
   max_errors (born (default_props\<lparr>p_verbose := True\<rparr>)) = 10 \<and>
   snd (Core_run idle_core (born (default_props\<lparr>p_verbose := True\<rparr>))
          (map scalar_frame [1, 2, 3, 4, 5, 6, 7, 8, 9, 10]))
     = replicate 10 (Failed \<lparr>out_ts = 0, tracks = [], num_tracks = 0, track_ids = []\<rparr>) \<and>
   error_count (fst (Core_run idle_core (born (default_props\<lparr>p_verbose := True\<rparr>))
          (map scalar_frame [1, 2, 3, 4, 5, 6, 7, 8, 9, 10]))) = 1 \<and>
   snd (Core idle_core
          (fst (Core_run idle_core (born (default_props\<lparr>p_verbose := True\<rparr>))
                  (map scalar_frame [1, 2, 3, 4, 5, 6, 7, 8, 9, 10])))
          (scalar_frame 11))
     = Failed \<lparr>out_ts = 0, tracks = [], num_tracks = 0, track_ids = []\<rparr> \<and>
   snd (Core_run idle_core (born default_props) (map scalar_frame [1, 2, 3, 4, 5, 6, 7, 8, 9, 10]))
     = replicate 10 (Processed \<lparr>out_ts = 0, tracks = [], num_tracks = 0, track_ids = []\<rparr>) \<and>
   error_count (fst (Core_run idle_core (born default_props)
          (map scalar_frame [1, 2, 3, 4, 5, 6, 7, 8, 9, 10]))) = 0"
  unfolding Birth_verbose_props born_verbose_props born_default_props
  by (simp add: frame_eval numeral_eq_Suc)

text \<open>
  Claim C2, as the code has it. A frame that is processed adds 1 to the component's frame
  counter, and nothing sets that counter back. When the new count is a multiple of 100
  and the constructor succeeds, a fresh \<open>RealtimeTracker\<close> (its own counter at 0) is added
  to the objects and becomes the current tracker, the earlier objects staying as they
  were. When the new count is a multiple of 100 and the constructor raises, the exception
  is only reported: the objects and the current tracker stay as they were. At any other
  count the tracker is left alone.
\<close>

theorem periodic_reset_new_instance:
  assumes "snd (Core nc c f) = Processed out"
  shows "c_frame_count (fst (Core nc c f)) = c_frame_count c + 1 \<and>
         ((c_frame_count c + 1) mod 100 = 0 \<and>
          RealtimeTracker_init nc (p_dataset (properties c)) (p_det_name (properties c))
             (p_category (properties c)) (p_ID_init (properties c)) = Inr rt \<longrightarrow>
            objects (fst (Core nc c f)) = objects c @ [rt] \<and>
            c_tracker (fst (Core nc c f)) = Some (length (objects c)) \<and>
            frame_count rt = 0) \<and>
         ((c_frame_count c + 1) mod 100 = 0 \<and>
          RealtimeTracker_init nc (p_dataset (properties c)) (p_det_name (properties c))
             (p_category (properties c)) (p_ID_init (properties c)) = Inl err \<longrightarrow>
            objects (fst (Core nc c f)) = objects c \<and> c_tracker (fst (Core nc c f)) = c_tracker c) \<and>
         ((c_frame_count c + 1) mod 100 \<noteq> 0 \<longrightarrow>
            objects (fst (Core nc c f)) = objects c \<and> c_tracker (fst (Core nc c f)) = c_tracker c)"
proof -
  from Core_processed [OF assms]
  have e: "fst (Core nc c f)
             = periodic_reset nc (c\<lparr>error_count := 0, last_process_time := now f,
                                      c_frame_count := c_frame_count c + 1\<rparr>)"
    by (rule conjunct1)
  have a: "c_frame_count (fst (Core nc c f)) = c_frame_count c + 1"
    unfolding e by (simp add: periodic_reset_config)
  have b: "(c_frame_count c + 1) mod 100 = 0 \<and>
          RealtimeTracker_init nc (p_dataset (properties c)) (p_det_name (properties c))
             (p_category (properties c)) (p_ID_init (properties c)) = Inr rt \<longrightarrow>
            objects (fst (Core nc c f)) = objects c @ [rt] \<and>
            c_tracker (fst (Core nc c f)) = Some (length (objects c)) \<and>
            frame_count rt = 0"
    unfolding e
    by (auto simp: periodic_reset_def install_tracker_def Let_def RealtimeTracker_init_def
             split: if_splits)
  have g: "(c_frame_count c + 1) mod 100 = 0 \<and>
          RealtimeTracker_init nc (p_dataset (properties c)) (p_det_name (properties c))
             (p_category (properties c)) (p_ID_init (properties c)) = Inl err \<longrightarrow>
            objects (fst (Core nc c f)) = objects c \<and> c_tracker (fst (Core nc c f)) = c_tracker c"
    unfolding e by (simp add: periodic_reset_def Let_def)
  have d: "(c_frame_count c + 1) mod 100 \<noteq> 0 \<longrightarrow>
            objects (fst (Core nc c f)) = objects c \<and> c_tracker (fst (Core nc c f)) = c_tracker c"
    unfolding e by (simp add: periodic_reset_def)
  from a b g d show ?thesis by (intro conjI)
qed

theorem periodic_reset_new_instance_witness:
  "c_frame_count (fst (Core idle_core
       (fst (Core_run idle_core (born default_props) (map (\<lambda>k. car_frame (real k)) [1..<100])))
       (car_frame 100))) = 100 \<and>
   objects (fst (Core idle_core
       (fst (Core_run idle_core (born default_props) (map (\<lambda>k. car_frame (real k)) [1..<100])))
       (car_frame 100)))
     = objects (born default_props)
       @ [\<lparr>dataset = ''KITTI'', det_name = ''pointrcnn'', category = ''Car'', frame_count = 0,
           tracker = \<lparr>trackers = [], core_frame_count = 0, ID_count = 0\<rparr>,
           det_id2str = det_id2str_KITTI\<rparr>] \<and>
   c_tracker (fst (Core idle_core
       (fst (Core_run idle_core (born default_props) (map (\<lambda>k. car_frame (real k)) [1..<100])))
       (car_frame 100))) = Some 1 \<and>
   RealtimeTracker_init idle_core ''Waymo'' ''pointrcnn'' ''Car'' 0 = Inl ValueError \<and>
   c_frame_count (fst (Core idle_core
       ((born default_props)\<lparr>c_frame_count := 99, last_process_time := 99,
                              properties := default_props\<lparr>p_dataset := ''Waymo''\<rparr>\<rparr>)
       (car_frame 100))) = 100 \<and>
   objects (fst (Core idle_core
       ((born default_props)\<lparr>c_frame_count := 99, last_process_time := 99,
                              properties := default_props\<lparr>p_dataset := ''Waymo''\<rparr>\<rparr>)
       (car_frame 100))) = objects (born default_props) \<and>
   c_tracker (fst (Core idle_core
       ((born default_props)\<lparr>c_frame_count := 99, last_process_time := 99,
                              properties := default_props\<lparr>p_dataset := ''Waymo''\<rparr>\<rparr>)
       (car_frame 100))) = Some 0"
proof -
  let ?c = "(born default_props)\<lparr>c_frame_count := 99, last_process_time := 99\<rparr>"
  let ?w = "(born default_props)\<lparr>c_frame_count := 99, last_process_time := 99,
                                   properties := default_props\<lparr>p_dataset := ''Waymo''\<rparr>\<rparr>"
  let ?rt = "\<lparr>dataset = ''KITTI'', det_name = ''pointrcnn'', category = ''Car'', frame_count = 0,
              tracker = \<lparr>trackers = [], core_frame_count = 0, ID_count = 0\<rparr>,
              det_id2str = det_id2str_KITTI\<rparr>"
  have h: "snd (Core idle_core ?c (car_frame 100))
             = Processed \<lparr>out_ts = 0,
                   tracks = [[1.5, 1.8, 4.5, 10, 0, 30, 0.1, 9900, 0.1, 2, 0, 0, 0, 0, 1]],
                   num_tracks = 1, track_ids = []\<rparr>"
    by (simp add: step_100)
  have m: "(c_frame_count ?c + 1) mod 100 = 0" by simp
  have i: "RealtimeTracker_init idle_core (p_dataset (properties ?c)) (p_det_name (properties ?c))
             (p_category (properties ?c)) (p_ID_init (properties ?c)) = Inr ?rt"
    unfolding born_default_props
    by (simp add: RealtimeTracker_init_def default_props_def idle_core_def)
  from periodic_reset_new_instance [OF h, of ?rt] m i
  have first: "c_frame_count (fst (Core idle_core ?c (car_frame 100))) = c_frame_count ?c + 1 \<and>
        objects (fst (Core idle_core ?c (car_frame 100))) = objects ?c @ [?rt] \<and>
        c_tracker (fst (Core idle_core ?c (car_frame 100))) = Some (length (objects ?c))"
    by simp
  have hw: "snd (Core idle_core ?w (car_frame 100))
             = Processed \<lparr>out_ts = 0,
                   tracks = [[1.5, 1.8, 4.5, 10, 0, 30, 0.1, 9900, 0.1, 2, 0, 0, 0, 0, 1]],
                   num_tracks = 1, track_ids = []\<rparr>"
    unfolding born_default_props by (simp add: frame_eval)
  have mw: "(c_frame_count ?w + 1) mod 100 = 0" by simp
  have iw: "RealtimeTracker_init idle_core (p_dataset (properties ?w)) (p_det_name (properties ?w))
             (p_category (properties ?w)) (p_ID_init (properties ?w)) = Inl ValueError"
    by (simp add: RealtimeTracker_init_def default_props_def)
  have v: "RealtimeTracker_init idle_core ''Waymo'' ''pointrcnn'' ''Car'' 0 = Inl ValueError"
    by (simp add: RealtimeTracker_init_def)
  from periodic_reset_new_instance [OF hw, of _ ValueError] mw iw
  have second: "c_frame_count (fst (Core idle_core ?w (car_frame 100))) = c_frame_count ?w + 1 \<and>
        objects (fst (Core idle_core ?w (car_frame 100))) = objects ?w \<and>
        c_tracker (fst (Core idle_core ?w (car_frame 100))) = c_tracker ?w"
    by simp
  from first second v show ?thesis
    unfolding run_99 by (simp add: born_default_props)
qed

text \<open>
  Claim C2 as stated fails for the frame counter: after 100 processed frames the reset
  has installed a second tracker object, the component's counter is 100, and the next
  frame is recorded under frame index 100 (its track id is 100 * 100 + 0).
\<close>

theorem frame_counter_not_restarted:
  "c_frame_count (fst (Core_run idle_core (born default_props)
                        (map (\<lambda>k. car_frame (real k)) [1..<101]))) = 100 \<and>
   length (objects (fst (Core_run idle_core (born default_props)
                        (map (\<lambda>k. car_frame (real k)) [1..<101])))) = 2 \<and>
   c_tracker (fst (Core_run idle_core (born default_props)
                        (map (\<lambda>k. car_frame (real k)) [1..<101]))) = Some 1 \<and>
   snd (Core idle_core
          (fst (Core_run idle_core (born default_props) (map (\<lambda>k. car_frame (real k)) [1..<101])))
          (car_frame 101))
     = Processed \<lparr>out_ts = 0,
                  tracks = [[1.5, 1.8, 4.5, 10, 0, 30, 0.1, 10000, 0.1, 2, 0, 0, 0, 0, 1]],
                  num_tracks = 1, track_ids = []\<rparr>"
  unfolding run_100 by (simp add: frame_eval default_props_def)

text \<open>
  Claim C4, as the code has it. In the live component an exception of the tracking step
  is answered with an empty result: the call ends normally and writes no result row. The
  batch entry point \<open>track_frame\<close> has no handler: it raises ValueError for detections whose
  column count is neither 7 nor 8, and an exception of the tracking core reaches the
  caller unchanged.
\<close>

theorem tracking_fault_handling:
  "(tracking_step (dets (parse_detection_input (current_tracker c) data))
             (info (parse_detection_input (current_tracker c) data))
             (case idx of Some i \<Rightarrow> i | None \<Rightarrow> c_frame_count c) = Inl err \<longrightarrow>
      (\<exists>out. (snd (process_frame nc c t ts data idx) = Processed out \<or>
              snd (process_frame nc c t ts data idx) = Failed out) \<and>
             tracks out = [] \<and> num_tracks out = 0)) \<and>
   (shape0 d = Inr n \<and> 0 < n \<and> shape1 d = Inr k \<and> k \<noteq> 7 \<and> k \<noteq> 8 \<longrightarrow>
      track_frame track rt d fidx ai = Inl ValueError) \<and>
   (prepare_dets rt d ai = Inr da \<and>
    track (tracker rt) da (case fidx of None \<Rightarrow> frame_count rt | Some i \<Rightarrow> i) = Inl err' \<longrightarrow>
      track_frame track rt d fidx ai = Inl err')"
proof (intro conjI impI)
  assume "tracking_step (dets (parse_detection_input (current_tracker c) data))
             (info (parse_detection_input (current_tracker c) data))
             (case idx of Some i \<Rightarrow> i | None \<Rightarrow> c_frame_count c) = Inl err"
  then show "\<exists>out. (snd (process_frame nc c t ts data idx) = Processed out \<or>
              snd (process_frame nc c t ts data idx) = Failed out) \<and>
             tracks out = [] \<and> num_tracks out = 0"
    by (rule process_frame_fault)
next
  assume a: "shape0 d = Inr n \<and> 0 < n \<and> shape1 d = Inr k \<and> k \<noteq> 7 \<and> k \<noteq> 8"
  then have "shape0 d = Inr n" "0 < n" "shape1 d = Inr k" "k \<noteq> 7" "k \<noteq> 8" by simp_all
  then show "track_frame track rt d fidx ai = Inl ValueError" by (rule track_frame_columns)
next
  assume "prepare_dets rt d ai = Inr da \<and>
    track (tracker rt) da (case fidx of None \<Rightarrow> frame_count rt | Some i \<Rightarrow> i) = Inl err'"
  then have "prepare_dets rt d ai = Inr da"
    "track (tracker rt) da (case fidx of None \<Rightarrow> frame_count rt | Some i \<Rightarrow> i) = Inl err'"
    by simp_all
  then show "track_frame track rt d fidx ai = Inl err'" by (rule track_frame_core_fault)
qed

theorem tracking_fault_handling_witness:
  "snd (process_frame idle_core (born default_props) 1000 0
          (PDict [''dets'' \<mapsto> A0 0, ''info'' \<mapsto> A0 0]) None)
     = Processed \<lparr>out_ts = 0, tracks = [], num_tracks = 0, track_ids = []\<rparr> \<and>
   track_frame idle_track
     \<lparr>dataset = ''KITTI'', det_name = ''pointrcnn'', category = ''Car'', frame_count = 0,
      tracker = \<lparr>trackers = [], core_frame_count = 0, ID_count = 0\<rparr>,
      det_id2str = det_id2str_KITTI\<rparr>
     (A2 3 [[1, 2, 3]]) None None = Inl ValueError \<and>
   track_frame (\<lambda>core da fi. Inl KeyError)
     \<lparr>dataset = ''KITTI'', det_name = ''pointrcnn'', category = ''Car'', frame_count = 0,
      tracker = \<lparr>trackers = [], core_frame_count = 0, ID_count = 0\<rparr>,
      det_id2str = det_id2str_KITTI\<rparr>
     (A2 7 [[1.5, 1.8, 4.5, 10, 0, 30, 0.1]]) None None = Inl KeyError"
proof -
  let ?rt = "\<lparr>dataset = ''KITTI'', det_name = ''pointrcnn'', category = ''Car'', frame_count = 0,
      tracker = \<lparr>trackers = [], core_frame_count = 0, ID_count = 0\<rparr>,
      det_id2str = det_id2str_KITTI\<rparr>"
  let ?data = "PDict [''dets'' \<mapsto> A0 0, ''info'' \<mapsto> A0 0]"
  let ?d7 = "A2 7 [[1.5, 1.8, 4.5, 10, 0, 30, 0.1::real]]"
  have f: "tracking_step (dets (parse_detection_input (current_tracker (born default_props)) ?data))
             (info (parse_detection_input (current_tracker (born default_props)) ?data))
             (case None of Some i \<Rightarrow> i | None \<Rightarrow> c_frame_count (born default_props)) = Inl IndexError"
    unfolding born_default_props by (simp add: frame_eval)
  have s: "shape0 (A2 3 [[1, 2, 3]]) = Inr 1 \<and> (0::nat) < 1 \<and> shape1 (A2 3 [[1, 2, 3]]) = Inr 3 \<and>
           (3::nat) \<noteq> 7 \<and> (3::nat) \<noteq> 8"
    by simp
  obtain da where p: "prepare_dets ?rt ?d7 None = Inr da"
    by (simp add: prepare_dets_def Let_def)
  have k: "(\<lambda>core da fi. Inl KeyError) (tracker ?rt) da
             (case None of None \<Rightarrow> frame_count ?rt | Some i \<Rightarrow> i) = Inl KeyError"
    by simp
  from tracking_fault_handling
         [of "born default_props" ?data None IndexError idle_core 1000 0
             "A2 3 [[1, 2, 3]]" 1 3 idle_track ?rt None None]
       f s
  have a: "\<exists>out. (snd (process_frame idle_core (born default_props) 1000 0 ?data None) = Processed out \<or>
               snd (process_frame idle_core (born default_props) 1000 0 ?data None) = Failed out) \<and>
              tracks out = [] \<and> num_tracks out = 0"
    and b: "track_frame idle_track ?rt (A2 3 [[1, 2, 3]]) None None = Inl ValueError"
    by simp_all
  from tracking_fault_handling
         [of "born default_props" ?data None IndexError idle_core 1000 0
             ?d7 1 7 "\<lambda>core da fi. Inl KeyError" ?rt None None da KeyError]
       p k
  have c: "track_frame (\<lambda>core da fi. Inl KeyError) ?rt ?d7 None None = Inl KeyError"
    by simp
  have e: "snd (process_frame idle_core (born default_props) 1000 0 ?data None)
             = Processed \<lparr>out_ts = 0, tracks = [], num_tracks = 0, track_ids = []\<rparr>"
    unfolding born_default_props by (simp add: frame_eval)
  from e b c show ?thesis by simp
qed

text \<open>
  Claim C4 as stated fails for batch callers: \<open>track_frame\<close> on one detection in the
  15-column format raises ValueError.
\<close>

theorem batch_caller_gets_exception:
  "track_frame idle_track
     \<lparr>dataset = ''KITTI'', det_name = ''pointrcnn'', category = ''Car'', frame_count = 0,
      tracker = \<lparr>trackers = [], core_frame_count = 0, ID_count = 0\<rparr>,
      det_id2str = det_id2str_KITTI\<rparr>
     (A2 15 [[0, 712.4, 143, 810.73, 307.92, 0.9, 1.5, 1.8, 4.5, 10, 0, 30, 0.1, 0.1, 0.9]]) None None
   = Inl ValueError"
  by (simp add: track_frame_def prepare_dets_def Let_def)

end
